theory Spec2Isabelle
  imports Complex_Main
begin

section \<open>Python values and strings\<close>

text \<open>
  The repository is Python. Text is modelled as \<open>string\<close>, read as ASCII text: the
  helpers below implement \<open>str.strip\<close>, \<open>str.upper\<close>, \<open>str.lower\<close> and the
  regular-expression classes \<open>\s\<close>, \<open>\d\<close>, \<open>\w\<close> on the ASCII range and leave every
  other character alone. Values of type \<open>Any\<close> (metadata values, page numbers) are
  modelled by \<open>pyval\<close>: \<open>None\<close>, booleans, integers and strings. A \<open>dict\<close> with
  string keys is an association list in insertion order.
\<close>

datatype pyval = PNone | PBool bool | PInt int | PStr string

type_synonym pydict = "(string \<times> pyval) list"

definition digit_char :: "nat \<Rightarrow> char" where
  "digit_char n = char_of (48 + n)"

function str_nat :: "nat \<Rightarrow> string" where
  "str_nat n = (if n < 10 then [digit_char n] else str_nat (n div 10) @ [digit_char (n mod 10)])"
  by pat_completeness auto
termination
  by (relation "measure id") auto

declare str_nat.simps [simp del]

definition str_int :: "int \<Rightarrow> string" where
  "str_int i = (if i < 0 then CHR ''-'' # str_nat (nat (- i)) else str_nat (nat i))"

text \<open>\<open>str(value)\<close> and \<open>type(value).__name__\<close>.\<close>

fun py_str :: "pyval \<Rightarrow> string" where
  "py_str PNone = ''None''"
| "py_str (PBool b) = (if b then ''True'' else ''False'')"
| "py_str (PInt i) = str_int i"
| "py_str (PStr s) = s"

fun type_name :: "pyval \<Rightarrow> string" where
  "type_name PNone = ''NoneType''"
| "type_name (PBool b) = ''bool''"
| "type_name (PInt i) = ''int''"
| "type_name (PStr s) = ''str''"

text \<open>Truthiness, and \<open>a or b\<close>, which yields \<open>a\<close> when it is truthy and \<open>b\<close> otherwise.\<close>

fun truthy :: "pyval \<Rightarrow> bool" where
  "truthy PNone = False"
| "truthy (PBool b) = b"
| "truthy (PInt i) = (i \<noteq> 0)"
| "truthy (PStr s) = (s \<noteq> [])"

definition py_or :: "pyval \<Rightarrow> pyval \<Rightarrow> pyval" where
  "py_or a b = (if truthy a then a else b)"

text \<open>\<open>d.get(k)\<close>: the value, or \<open>None\<close> when the key is absent.\<close>

definition dict_get :: "pydict \<Rightarrow> string \<Rightarrow> pyval" where
  "dict_get d k = (case map_of d k of None \<Rightarrow> PNone | Some v \<Rightarrow> v)"

text \<open>\<open>d[k] = v\<close>: overwrite in place, or append a new key.\<close>

fun dict_set :: "(string \<times> 'v) list \<Rightarrow> string \<Rightarrow> 'v \<Rightarrow> (string \<times> 'v) list" where
  "dict_set [] k v = [(k, v)]"
| "dict_set ((k', v') # d) k v = (if k' = k then (k, v) # d else (k', v') # dict_set d k v)"

definition is_space :: "char \<Rightarrow> bool" where
  "is_space c = (let n = (of_char c :: nat) in (9 \<le> n \<and> n \<le> 13) \<or> (28 \<le> n \<and> n \<le> 32))"

definition is_upper :: "char \<Rightarrow> bool" where
  "is_upper c = (let n = (of_char c :: nat) in 65 \<le> n \<and> n \<le> 90)"

definition is_lower :: "char \<Rightarrow> bool" where
  "is_lower c = (let n = (of_char c :: nat) in 97 \<le> n \<and> n \<le> 122)"

definition is_digit :: "char \<Rightarrow> bool" where
  "is_digit c = (let n = (of_char c :: nat) in 48 \<le> n \<and> n \<le> 57)"

definition is_word :: "char \<Rightarrow> bool" where
  "is_word c = (is_upper c \<or> is_lower c \<or> is_digit c \<or> c = CHR ''_'')"

definition upper_char :: "char \<Rightarrow> char" where
  "upper_char c = (if is_lower c then char_of ((of_char c :: nat) - 32) else c)"

definition lower_char :: "char \<Rightarrow> char" where
  "lower_char c = (if is_upper c then char_of ((of_char c :: nat) + 32) else c)"

definition upper :: "string \<Rightarrow> string" where
  "upper s = map upper_char s"

definition lower :: "string \<Rightarrow> string" where
  "lower s = map lower_char s"

text \<open>\<open>s.strip()\<close> and \<open>s.strip('_')\<close>.\<close>

definition strip_chars :: "(char \<Rightarrow> bool) \<Rightarrow> string \<Rightarrow> string" where
  "strip_chars p s = rev (dropWhile p (rev (dropWhile p s)))"

definition strip :: "string \<Rightarrow> string" where
  "strip s = strip_chars is_space s"

text \<open>\<open>s.replace(a, b)\<close> for one-character \<open>a\<close> and \<open>b\<close>.\<close>

definition replace_char :: "char \<Rightarrow> char \<Rightarrow> string \<Rightarrow> string" where
  "replace_char a b s = map (\<lambda>c. if c = a then b else c) s"

text \<open>\<open>sep.join(xs)\<close>.\<close>

fun join :: "string \<Rightarrow> string list \<Rightarrow> string" where
  "join sep [] = []"
| "join sep [x] = x"
| "join sep (x # y # ys) = x @ sep @ join sep (y # ys)"

text \<open>
  \<open>s.split(sep)\<close> for a non-empty separator: the pieces between the
  non-overlapping occurrences of \<open>sep\<close>, found left to right. The accumulator holds
  the current piece, reversed.
\<close>

fun split_acc :: "string \<Rightarrow> string \<Rightarrow> string \<Rightarrow> string list" where
  "split_acc sep acc [] = [rev acc]"
| "split_acc sep acc (c # cs) =
     (if sep \<noteq> [] \<and> take (length sep) (c # cs) = sep
      then rev acc # split_acc sep [] (drop (length sep) (c # cs))
      else split_acc sep (c # acc) cs)"

definition split :: "string \<Rightarrow> string \<Rightarrow> string list" where
  "split sep s = split_acc sep [] s"

text \<open>\<open>sub in s\<close> for strings.\<close>

fun contains :: "string \<Rightarrow> string \<Rightarrow> bool" where
  "contains sub [] = (sub = [])"
| "contains sub (c # cs) = (take (length sub) (c # cs) = sub \<or> contains sub cs)"

section \<open>Metadata schema (metadata_schema.py)\<close>

definition REQUIRED_METADATA_FIELDS :: "string list" where
  "REQUIRED_METADATA_FIELDS = [''board'', ''grade'', ''subject'']"

definition OPTIONAL_METADATA_FIELDS :: "string list" where
  "OPTIONAL_METADATA_FIELDS =
     [''term'', ''chapter'', ''chapter_number'', ''publisher'', ''edition'', ''language'',
      ''content_type'', ''difficulty'']"

definition ALLOWED_CONTENT_TYPES :: "string list" where
  "ALLOWED_CONTENT_TYPES = [''theory'', ''exercises'', ''solutions'', ''examples'']"

definition ALLOWED_DIFFICULTY_LEVELS :: "string list" where
  "ALLOWED_DIFFICULTY_LEVELS = [''basic'', ''medium'', ''advanced'']"

text \<open>The \<open>repr\<close> of a list of plain words, as an f-string prints it.\<close>

definition repr_words :: "string list \<Rightarrow> string" where
  "repr_words ws = ''['' @ join '', '' (map (\<lambda>w. [CHR 0x27] @ w @ [CHR 0x27]) ws) @ '']''"

definition quoted :: "string \<Rightarrow> string" where
  "quoted s = [CHR 0x27] @ s @ [CHR 0x27]"

record validation =
  valid :: bool
  errors :: "string list"
  warnings :: "string list"
  normalized :: "pydict option"

text \<open>
  The three accumulators of \<open>validate_metadata\<close>. All schema types are \<open>str\<close>, so
  \<open>isinstance(value, field_type)\<close> is the test for \<open>PStr\<close>.
\<close>

record vstate =
  v_errors :: "string list"
  v_warnings :: "string list"
  v_normalized :: pydict

definition add_error :: "string \<Rightarrow> vstate \<Rightarrow> vstate" where
  "add_error e st = st\<lparr>v_errors := v_errors st @ [e]\<rparr>"

definition add_warning :: "string \<Rightarrow> vstate \<Rightarrow> vstate" where
  "add_warning w st = st\<lparr>v_warnings := v_warnings st @ [w]\<rparr>"

definition set_normalized :: "string \<Rightarrow> string \<Rightarrow> vstate \<Rightarrow> vstate" where
  "set_normalized k s st = st\<lparr>v_normalized := dict_set (v_normalized st) k (PStr s)\<rparr>"

text \<open>One iteration of the loop over the required fields.\<close>

definition check_required :: "pydict \<Rightarrow> string \<Rightarrow> vstate \<Rightarrow> vstate" where
  "check_required metadata field st =
     (case map_of metadata field of
        None \<Rightarrow> add_error (''Missing required field: '' @ quoted field) st
      | Some (PStr value) \<Rightarrow>
          (if field = ''board'' then
             (let normalized_value = replace_char CHR '' '' CHR ''_'' (upper (strip value));
                  st' = (if normalized_value \<noteq> value
                         then add_warning (''Board name normalized: '' @ quoted value @ '' -> ''
                                           @ quoted normalized_value) st
                         else st)
              in set_normalized field normalized_value st')
           else if field = ''grade'' then
             (let normalized_value = strip value;
                  st' = (if normalized_value \<noteq> value
                         then add_warning (''Grade normalized to string: '' @ quoted value
                                           @ '' -> '' @ quoted normalized_value) st
                         else st)
              in set_normalized field normalized_value st')
           else if field = ''subject'' then set_normalized field (strip value) st
           else set_normalized field value st)
      | Some value \<Rightarrow>
          add_error (''Field '' @ quoted field @ '' must be of type str, got '' @ type_name value) st)"

text \<open>One iteration of the loop over the optional fields.\<close>

definition check_optional :: "bool \<Rightarrow> pydict \<Rightarrow> string \<Rightarrow> vstate \<Rightarrow> vstate" where
  "check_optional strict metadata field st =
     (case map_of metadata field of
        None \<Rightarrow> st
      | Some (PStr value) \<Rightarrow>
          (let st1 = (if field = ''content_type'' \<and> strict \<and> value \<notin> set ALLOWED_CONTENT_TYPES
                      then add_error (''content_type must be one of ''
                                      @ repr_words ALLOWED_CONTENT_TYPES @ '', got '' @ quoted value) st
                      else st);
               st2 = (if field = ''difficulty'' \<and> strict \<and> value \<notin> set ALLOWED_DIFFICULTY_LEVELS
                      then add_error (''difficulty must be one of ''
                                      @ repr_words ALLOWED_DIFFICULTY_LEVELS @ '', got '' @ quoted value) st1
                      else st1);
               normalized_value = strip value;
               st3 = (if normalized_value \<noteq> value
                      then add_warning (''Field '' @ quoted field @ '' normalized: '' @ quoted value
                                        @ '' -> '' @ quoted normalized_value) st2
                      else st2)
           in set_normalized field normalized_value st3)
      | Some value \<Rightarrow>
          add_error (''Optional field '' @ quoted field @ '' must be of type str, got ''
                     @ type_name value) st)"

text \<open>
  The warnings about unknown and non-lowercase keys. The source joins a \<open>set\<close> of
  unknown keys, whose iteration order Python leaves open; the model lists them in the
  order of the input's keys. Only the text of this one warning depends on that order: the
  errors, the normalised mapping and \<open>valid\<close> do not read the warnings.
\<close>

definition unknown_fields :: "pydict \<Rightarrow> string list" where
  "unknown_fields metadata =
     filter (\<lambda>k. k \<notin> set (REQUIRED_METADATA_FIELDS @ OPTIONAL_METADATA_FIELDS)) (map fst metadata)"

definition check_unknown :: "pydict \<Rightarrow> vstate \<Rightarrow> vstate" where
  "check_unknown metadata st =
     (if unknown_fields metadata \<noteq> []
      then add_warning (''Unknown fields found (will be ignored): ''
                        @ join '', '' (unknown_fields metadata)) st
      else st)"

definition check_key_case :: "string \<Rightarrow> vstate \<Rightarrow> vstate" where
  "check_key_case key st =
     (if key \<noteq> lower key
      then add_warning (''Key '' @ quoted key @ '' should be lowercase (use '' @ quoted (lower key)
                        @ '')'') st
      else st)"

definition validate_metadata :: "pydict \<Rightarrow> bool \<Rightarrow> validation" where
  "validate_metadata metadata strict =
     (let st0 = \<lparr>v_errors = [], v_warnings = [], v_normalized = []\<rparr>;
          st1 = fold (check_required metadata) REQUIRED_METADATA_FIELDS st0;
          st2 = fold (check_optional strict metadata) OPTIONAL_METADATA_FIELDS st1;
          st3 = check_unknown metadata st2;
          st4 = fold check_key_case (map fst metadata) st3
      in \<lparr>valid = (length (v_errors st4) = 0),
          errors = v_errors st4,
          warnings = v_warnings st4,
          normalized = (if length (v_errors st4) = 0 then Some (v_normalized st4) else None)\<rparr>)"

text \<open>
  The board normalisation of \<open>create_metadata_filter\<close>.
  \<open>re.sub(r'(?<!^)(?<!_)([A-Z])', r'_\1', s)\<close> puts an underscore before every
  capital letter that is neither the first character nor preceded by an underscore;
  the look-behind reads the original string, so \<open>camel_from\<close> carries the previous
  original character.
\<close>

fun camel_from :: "char \<Rightarrow> string \<Rightarrow> string" where
  "camel_from prev [] = []"
| "camel_from prev (c # cs) =
     (if is_upper c \<and> prev \<noteq> CHR ''_'' then CHR ''_'' # c # camel_from c cs
      else c # camel_from c cs)"

definition camel_underscores :: "string \<Rightarrow> string" where
  "camel_underscores s = (case s of [] \<Rightarrow> [] | c # cs \<Rightarrow> c # camel_from c cs)"

text \<open>\<open>re.sub(r'_+', '_', s)\<close>.\<close>

fun collapse_underscores :: "string \<Rightarrow> string" where
  "collapse_underscores [] = []"
| "collapse_underscores [c] = [c]"
| "collapse_underscores (c # d # cs) =
     (if c = CHR ''_'' \<and> d = CHR ''_'' then collapse_underscores (d # cs)
      else c # collapse_underscores (d # cs))"

definition normalize_board :: "string \<Rightarrow> string" where
  "normalize_board value =
     (let normalized = strip value;
          normalized = replace_char CHR ''.'' CHR ''_'' (replace_char CHR ''-'' CHR ''_'' normalized);
          normalized = camel_underscores normalized;
          normalized = replace_char CHR '' '' CHR ''_'' (upper normalized)
      in strip_chars (\<lambda>c. c = CHR ''_'') (collapse_underscores normalized))"

definition filter_entry :: "pydict \<Rightarrow> string \<times> pyval \<Rightarrow> pydict" where
  "filter_entry filter_dict fv =
     (case fv of (field, value) \<Rightarrow>
        if field \<in> set REQUIRED_METADATA_FIELDS \<or> field \<in> set OPTIONAL_METADATA_FIELDS then
          (if field = ''board'' then dict_set filter_dict field (PStr (normalize_board (py_str value)))
           else if field = ''grade'' then dict_set filter_dict field (PStr (strip (py_str value)))
           else dict_set filter_dict field (PStr (strip (py_str value))))
        else filter_dict)"

definition create_metadata_filter :: "pydict \<Rightarrow> pydict" where
  "create_metadata_filter metadata_criteria = foldl filter_entry [] metadata_criteria"

section \<open>Page numbers (query_rag_corpus, lines 685 to 771)\<close>

text \<open>
  \<open>int(s)\<close> on a string: surrounding whitespace is dropped, one sign is allowed, and
  the digits may be grouped by single underscores. \<open>None\<close> stands for the
  \<open>ValueError\<close>. On ASCII text \<open>int\<close> skips only the characters 9 to 13 and the
  space: the separators 28 to 31, which \<open>str.strip\<close> and \<open>\s\<close> treat as whitespace,
  make it raise. (The interpreter's limit on the number of digits is not modelled.)
\<close>

definition is_int_space :: "char \<Rightarrow> bool" where
  "is_int_space c = (let n = (of_char c :: nat) in (9 \<le> n \<and> n \<le> 13) \<or> n = 32)"

definition digit_groups_ok :: "string \<Rightarrow> bool" where
  "digit_groups_ok body = list_all (\<lambda>g. g \<noteq> [] \<and> list_all is_digit g) (split ''_'' body)"

definition digits_value :: "string \<Rightarrow> nat" where
  "digits_value body = foldl (\<lambda>a c. 10 * a + ((of_char c :: nat) - 48)) 0 (filter is_digit body)"

definition py_int :: "string \<Rightarrow> int option" where
  "py_int s =
     (let t = strip_chars is_int_space s;
          neg = (case t of [] \<Rightarrow> False | c # _ \<Rightarrow> c = CHR ''-'');
          body = (case t of [] \<Rightarrow> [] | c # cs \<Rightarrow> if c = CHR ''-'' \<or> c = CHR ''+'' then cs else t)
      in if digit_groups_ok body
         then Some (if neg then - int (digits_value body) else int (digits_value body))
         else None)"

text \<open>
  The six regular expressions of \<open>page_patterns\<close> use literal characters, \<open>\b\<close>,
  \<open>\.?\<close>, \<open>\s*\<close>, \<open>\s+\<close> and one group \<open>(\d+)\<close>, under \<open>re.IGNORECASE\<close>. The
  matcher below is a backtracking matcher for exactly these items: a repetition is
  greedy and gives characters back when the rest of the pattern fails. The flag of a
  repetition says whether it is the capturing group. The matcher carries the character
  before the current position (for \<open>\b\<close>) and the text captured so far.
\<close>

datatype cclass = Space | Digit

fun in_class :: "cclass \<Rightarrow> char \<Rightarrow> bool" where
  "in_class Space c = is_space c"
| "in_class Digit c = is_digit c"

datatype rx = Lit char | WordB | Opt char | Star cclass bool | Plus cclass bool

definition word_opt :: "char option \<Rightarrow> bool" where
  "word_opt c = (case c of None \<Rightarrow> False | Some x \<Rightarrow> is_word x)"

definition first_opt :: "string \<Rightarrow> char option" where
  "first_opt s = (case s of [] \<Rightarrow> None | c # _ \<Rightarrow> Some c)"

fun rx_match :: "rx list \<Rightarrow> char option \<Rightarrow> string \<Rightarrow> string \<Rightarrow> string option" where
  "rx_match [] prev s cap = Some cap"
| "rx_match (Lit c # rs) prev [] cap = None"
| "rx_match (Lit c # rs) prev (x # xs) cap =
     (if lower_char x = lower_char c then rx_match rs (Some x) xs cap else None)"
| "rx_match (WordB # rs) prev s cap =
     (if word_opt prev \<noteq> word_opt (first_opt s) then rx_match rs prev s cap else None)"
| "rx_match (Opt c # rs) prev [] cap = rx_match rs prev [] cap"
| "rx_match (Opt c # rs) prev (x # xs) cap =
     (if lower_char x = lower_char c
      then (case rx_match rs (Some x) xs cap of
              Some g \<Rightarrow> Some g
            | None \<Rightarrow> rx_match rs prev (x # xs) cap)
      else rx_match rs prev (x # xs) cap)"
| "rx_match (Star k grp # rs) prev [] cap = rx_match rs prev [] cap"
| "rx_match (Star k grp # rs) prev (x # xs) cap =
     (if in_class k x
      then (case rx_match (Star k grp # rs) (Some x) xs (if grp then cap @ [x] else cap) of
              Some g \<Rightarrow> Some g
            | None \<Rightarrow> rx_match rs prev (x # xs) cap)
      else rx_match rs prev (x # xs) cap)"
| "rx_match (Plus k grp # rs) prev [] cap = None"
| "rx_match (Plus k grp # rs) prev (x # xs) cap =
     (if in_class k x
      then rx_match (Star k grp # rs) (Some x) xs (if grp then cap @ [x] else cap)
      else None)"

text \<open>\<open>re.search\<close>: the first position where the pattern matches; the value is group 1.\<close>

fun rx_search :: "rx list \<Rightarrow> char option \<Rightarrow> string \<Rightarrow> string option" where
  "rx_search rs prev [] = rx_match rs prev [] []"
| "rx_search rs prev (c # cs) =
     (case rx_match rs prev (c # cs) [] of
        Some g \<Rightarrow> Some g
      | None \<Rightarrow> rx_search rs (Some c) cs)"

definition lits :: "string \<Rightarrow> rx list" where
  "lits s = map Lit s"

definition page_patterns :: "rx list list" where
  "page_patterns =
     [ WordB # lits ''page'' @ [Plus Space False, Plus Digit True, WordB],
       WordB # lits ''p.'' @ [Star Space False, Plus Digit True, WordB],
       WordB # lits ''pg'' @ [Opt CHR ''.'', Star Space False, Plus Digit True, WordB],
       WordB # lits ''page'' @ [Star Space False, Lit CHR '':'', Star Space False,
                                Plus Digit True, WordB],
       lits ''(page'' @ [Plus Space False, Plus Digit True, Lit CHR '')''],
       lits ''[page'' @ [Plus Space False, Plus Digit True, Lit CHR '']''] ]"

text \<open>The loop over the patterns: the first one that matches and converts wins.\<close>

fun text_page :: "rx list list \<Rightarrow> string \<Rightarrow> int option" where
  "text_page [] t = None"
| "text_page (p # ps) t =
     (case rx_search p None t of
        None \<Rightarrow> text_page ps t
      | Some g \<Rightarrow> (case py_int g of Some n \<Rightarrow> Some n | None \<Rightarrow> text_page ps t))"

text \<open>
  A context returned by the retrieval service. \<open>ctx_text\<close>, \<open>ctx_source_uri\<close> and
  \<open>ctx_relevance_score\<close> are \<open>None\<close> when the attribute is missing; \<open>ctx_attrs\<close> holds
  the other attributes that \<open>hasattr\<close> sees, \<open>ctx_dict\<close> the \<open>__dict__\<close> when there is
  one, \<open>ctx_dir\<close> the names listed by \<open>dir\<close>. The metadata is a \<open>dict\<close>, an object
  with a \<open>__dict__\<close> (its instance attributes), or something else, of which the model
  keeps the truth value and the outcome of \<open>dict(...)\<close> (\<open>None\<close> when it raises).
  Relevance scores are floats in the source and rationals here.
\<close>

datatype ctx_meta = MetaDict pydict | MetaObj pydict | MetaOther bool "pydict option"

record ctx =
  ctx_text :: "string option"
  ctx_source_uri :: "string option"
  ctx_relevance_score :: "rat option"
  ctx_attrs :: pydict
  ctx_dict :: "pydict option"
  ctx_dir :: "string list"
  ctx_metadata :: "ctx_meta option"
  ctx_rag_metadata :: "ctx_meta option"

record result =
  r_text :: string
  r_source_uri :: "string option"
  r_relevance_score :: "rat option"
  r_metadata :: "pydict option"
  r_page_number :: "pyval option"
  r_debug_info :: "string list option"
  r_corpus_id :: "string option"
  r_corpus_name :: "string option"
  r_citation :: "string option"

fun meta_truthy :: "ctx_meta \<Rightarrow> bool" where
  "meta_truthy (MetaDict d) = (d \<noteq> [])"
| "meta_truthy (MetaObj d) = True"
| "meta_truthy (MetaOther b d) = b"

text \<open>Lines 688 to 696: the first of four attributes that exists, whatever its value.\<close>

definition attr_page :: "ctx \<Rightarrow> pyval" where
  "attr_page c =
     (case map_of (ctx_attrs c) ''page_number'' of Some v \<Rightarrow> v | None \<Rightarrow>
      (case map_of (ctx_attrs c) ''page'' of Some v \<Rightarrow> v | None \<Rightarrow>
       (case map_of (ctx_attrs c) ''page_num'' of Some v \<Rightarrow> v | None \<Rightarrow>
        (case map_of (ctx_attrs c) ''pageNumber'' of Some v \<Rightarrow> v | None \<Rightarrow> PNone))))"

text \<open>Lines 698 to 704: the \<open>__dict__\<close> of the context.\<close>

definition dict_page :: "ctx \<Rightarrow> pyval \<Rightarrow> pyval" where
  "dict_page c page_number =
     (case ctx_dict c of
        None \<Rightarrow> page_number
      | Some d \<Rightarrow>
          if page_number = PNone
          then py_or (dict_get d ''page_number'')
                 (py_or (dict_get d ''page'') (py_or (dict_get d ''page_num'') (dict_get d ''pageNumber'')))
          else page_number)"

text \<open>Lines 706 to 711: which metadata object is used.\<close>

definition context_metadata :: "ctx \<Rightarrow> ctx_meta option" where
  "context_metadata c =
     (case ctx_metadata c of
        Some m \<Rightarrow> if meta_truthy m then Some m
                  else (case ctx_rag_metadata c of
                          Some m' \<Rightarrow> if meta_truthy m' then Some m' else None
                        | None \<Rightarrow> None)
      | None \<Rightarrow> (case ctx_rag_metadata c of
                   Some m' \<Rightarrow> if meta_truthy m' then Some m' else None
                 | None \<Rightarrow> None))"

definition meta_page_keys :: "pydict \<Rightarrow> pyval" where
  "meta_page_keys d = py_or (dict_get d ''page_number'') (py_or (dict_get d ''page'') (dict_get d ''page_num''))"

definition starts_with_underscore :: "string \<Rightarrow> bool" where
  "starts_with_underscore k = (case k of [] \<Rightarrow> False | c # _ \<Rightarrow> c = CHR ''_'')"

text \<open>Lines 713 to 733: the metadata stored in the result, and the page number after it.\<close>

definition stored_metadata :: "ctx \<Rightarrow> pydict option" where
  "stored_metadata c =
     (case context_metadata c of
        None \<Rightarrow> None
      | Some (MetaDict d) \<Rightarrow> Some d
      | Some (MetaObj d) \<Rightarrow> Some (filter (\<lambda>kv. \<not> starts_with_underscore (fst kv)) d)
      | Some (MetaOther b None) \<Rightarrow> Some []
      | Some (MetaOther b (Some d)) \<Rightarrow> Some d)"

definition metadata_page :: "ctx \<Rightarrow> pyval \<Rightarrow> pyval" where
  "metadata_page c page_number =
     (if page_number \<noteq> PNone then page_number
      else (case context_metadata c of
              None \<Rightarrow> page_number
            | Some (MetaDict d) \<Rightarrow> meta_page_keys d
            | Some (MetaObj d) \<Rightarrow> meta_page_keys d
            | Some (MetaOther b None) \<Rightarrow> page_number
            | Some (MetaOther b (Some d)) \<Rightarrow> meta_page_keys d))"

text \<open>Lines 739 to 748: the \<open>#page=N\<close> fragment of the source URI.\<close>

definition uri_page :: "string \<Rightarrow> int option" where
  "uri_page source_uri =
     (if contains ''#page='' source_uri
      then (case split ''#page='' source_uri of
              _ # b # _ \<Rightarrow> (case split ''&'' b of x # _ \<Rightarrow> py_int x | [] \<Rightarrow> None)
            | _ \<Rightarrow> None)
      else None)"

definition uri_step :: "string option \<Rightarrow> pyval \<Rightarrow> pyval" where
  "uri_step source_uri page_number =
     (case source_uri of
        None \<Rightarrow> page_number
      | Some u \<Rightarrow> if page_number = PNone \<and> u \<noteq> []
                  then (case uri_page u of Some n \<Rightarrow> PInt n | None \<Rightarrow> page_number)
                  else page_number)"

text \<open>Lines 750 to 771: the patterns in the passage text.\<close>

definition text_step :: "string \<Rightarrow> pyval \<Rightarrow> pyval" where
  "text_step t page_number =
     (if page_number = PNone \<and> t \<noteq> []
      then (case text_page page_patterns t of Some n \<Rightarrow> PInt n | None \<Rightarrow> page_number)
      else page_number)"

text \<open>Lines 676 to 779: the result built for one context, before filtering.\<close>

definition build_result :: "ctx \<Rightarrow> result" where
  "build_result c =
     (let t = (case ctx_text c of None \<Rightarrow> [] | Some s \<Rightarrow> s);
          page_number = attr_page c;
          page_number = dict_page c page_number;
          page_number = metadata_page c page_number;
          page_number = uri_step (ctx_source_uri c) page_number;
          page_number = text_step t page_number
      in \<lparr>r_text = t,
          r_source_uri = ctx_source_uri c,
          r_relevance_score = ctx_relevance_score c,
          r_metadata = stored_metadata c,
          r_page_number = (if page_number = PNone then None else Some page_number),
          r_debug_info = (if page_number = PNone
                          then Some (take 20 (filter (\<lambda>a. \<not> starts_with_underscore a) (ctx_dir c)))
                          else None),
          r_corpus_id = None, r_corpus_name = None, r_citation = None\<rparr>)"

text \<open>
  The specification's reading of the page number, written on the context itself and not
  through the steps above. A structured field is, in this order: the first of the four
  page attributes that the context has; the four page keys of its \<open>__dict__\<close>; the
  three page keys of the metadata that is used (\<open>metadata\<close> when it is truthy,
  else \<open>rag_metadata\<close> when it is truthy). \<open>or_chain\<close> is \<open>a or b or ...\<close>, and a
  field holding \<open>None\<close> is no field. After the structured fields come the fragment of
  the source URI and the patterns in the text. \<open>first_success\<close> is the specification's
  rule, "try in order and stop at the first method that succeeds"; \<open>spec_page_number\<close>
  applies it to the three methods.
\<close>

fun first_success :: "'a option list \<Rightarrow> 'a option" where
  "first_success [] = None"
| "first_success (None # ms) = first_success ms"
| "first_success (Some v # ms) = Some v"

fun or_chain :: "pyval list \<Rightarrow> pyval" where
  "or_chain [] = PNone"
| "or_chain [v] = v"
| "or_chain (v # w # vs) = (if truthy v then v else or_chain (w # vs))"

definition not_none :: "pyval \<Rightarrow> pyval option" where
  "not_none v = (if v = PNone then None else Some v)"

definition attribute_field :: "ctx \<Rightarrow> pyval option" where
  "attribute_field c =
     (case find (\<lambda>name. map_of (ctx_attrs c) name \<noteq> None)
             [''page_number'', ''page'', ''page_num'', ''pageNumber''] of
        None \<Rightarrow> None
      | Some name \<Rightarrow> not_none (dict_get (ctx_attrs c) name))"

definition dict_field :: "ctx \<Rightarrow> pyval option" where
  "dict_field c =
     (case ctx_dict c of
        None \<Rightarrow> None
      | Some d \<Rightarrow>
          not_none (or_chain (map (dict_get d) [''page_number'', ''page'', ''page_num'', ''pageNumber''])))"

definition metadata_keys :: "pydict \<Rightarrow> pyval option" where
  "metadata_keys d = not_none (or_chain (map (dict_get d) [''page_number'', ''page'', ''page_num'']))"

definition metadata_field :: "ctx \<Rightarrow> pyval option" where
  "metadata_field c =
     (case find meta_truthy
             ((case ctx_metadata c of None \<Rightarrow> [] | Some m \<Rightarrow> [m])
              @ (case ctx_rag_metadata c of None \<Rightarrow> [] | Some m \<Rightarrow> [m])) of
        None \<Rightarrow> None
      | Some (MetaDict d) \<Rightarrow> metadata_keys d
      | Some (MetaObj d) \<Rightarrow> metadata_keys d
      | Some (MetaOther b None) \<Rightarrow> None
      | Some (MetaOther b (Some d)) \<Rightarrow> metadata_keys d)"

definition structured_field :: "ctx \<Rightarrow> pyval option" where
  "structured_field c = first_success [attribute_field c, dict_field c, metadata_field c]"

definition uri_fragment :: "ctx \<Rightarrow> pyval option" where
  "uri_fragment c =
     (case ctx_source_uri c of
        None \<Rightarrow> None
      | Some u \<Rightarrow> if u \<noteq> [] then map_option PInt (uri_page u) else None)"

definition text_pattern :: "ctx \<Rightarrow> pyval option" where
  "text_pattern c =
     (let t = (case ctx_text c of None \<Rightarrow> [] | Some s \<Rightarrow> s)
      in if t \<noteq> [] then map_option PInt (text_page page_patterns t) else None)"

definition spec_page_number :: "ctx \<Rightarrow> pyval option" where
  "spec_page_number c = first_success [structured_field c, uri_fragment c, text_pattern c]"

section \<open>Querying one corpus (query_rag_corpus)\<close>

text \<open>\<open>a == b\<close> on values; a boolean equals the integer 0 or 1.\<close>

fun py_eq :: "pyval \<Rightarrow> pyval \<Rightarrow> bool" where
  "py_eq (PBool a) (PInt b) = ((if a then 1 else 0) = b)"
| "py_eq (PInt a) (PBool b) = (a = (if b then 1 else 0))"
| "py_eq a b = (a = b)"

text \<open>Lines 800 to 814: the comparison of a stored board with the filter's board.\<close>

definition norm_meta :: "string \<Rightarrow> string" where
  "norm_meta metadata_value =
     (let n = upper (strip metadata_value);
          n = replace_char CHR ''.'' CHR ''_'' (replace_char CHR ''-'' CHR ''_'' n);
          n = camel_underscores n
      in strip_chars (\<lambda>c. c = CHR ''_'') (collapse_underscores (replace_char CHR '' '' CHR ''_'' n)))"

definition norm_filter :: "string \<Rightarrow> string" where
  "norm_filter value =
     (let n = upper (strip value);
          n = replace_char CHR ''.'' CHR ''_'' (replace_char CHR ''-'' CHR ''_'' n)
      in strip_chars (\<lambda>c. c = CHR ''_'') (collapse_underscores (replace_char CHR '' '' CHR ''_'' n)))"

text \<open>Lines 789 to 822: one filter entry against the metadata of a result.\<close>

definition entry_matches :: "pydict \<Rightarrow> string \<times> pyval \<Rightarrow> bool" where
  "entry_matches md kv =
     (case kv of (key, value) \<Rightarrow>
        (case map_of md key of
           None \<Rightarrow> False
         | Some metadata_value \<Rightarrow>
             (case (metadata_value, value) of
                (PStr m, PStr v) \<Rightarrow>
                  if key = ''board'' then norm_meta m = norm_filter v
                  else lower (strip m) = lower (strip v)
              | _ \<Rightarrow> py_eq metadata_value value)))"

text \<open>
  Lines 781 to 826: whether a result passes the client-side filter. The source keeps
  \<open>None\<close> or a dict in \<open>normalized_filter\<close> and only tests its truth value; here the
  empty list stands for both \<open>None\<close> and the empty dict.
\<close>

definition passes_filter :: "pydict \<Rightarrow> result \<Rightarrow> bool" where
  "passes_filter normalized_filter r =
     (if normalized_filter \<noteq> [] then
        (case r_metadata r of
           None \<Rightarrow> False
         | Some md \<Rightarrow> md \<noteq> [] \<and> list_all (entry_matches md) normalized_filter)
      else True)"

text \<open>Lines 675 to 833: the loop over the contexts, with its \<open>continue\<close> and \<open>break\<close>.\<close>

fun process_contexts :: "pydict \<Rightarrow> int \<Rightarrow> ctx list \<Rightarrow> result list \<Rightarrow> result list" where
  "process_contexts normalized_filter top_k [] results = results"
| "process_contexts normalized_filter top_k (c # cs) results =
     (let r = build_result c in
      if \<not> passes_filter normalized_filter r
      then process_contexts normalized_filter top_k cs results
      else (let results' = results @ [r] in
            if normalized_filter \<noteq> [] \<and> int (length results') \<ge> top_k
            then results'
            else process_contexts normalized_filter top_k cs results'))"

text \<open>
  The retrieval service. An exception is modelled by its message (\<open>str(e)\<close>), on the
  left of a sum. The response has no \<open>contexts\<close> attribute, or a list of contexts, or
  an object whose own \<open>contexts\<close> attribute is the list. The configuration constants come
  from \<open>rag.config\<close>; the \<open>repr\<close> of a dict, which the messages print, is a parameter
  too.
\<close>

datatype rag_response = NoContexts | Contexts "ctx list" | NestedContexts "ctx list"

record retrieval_config =
  rc_top_k :: int
  rc_filter :: "rat option"

record raw_corpus =
  rc_name :: string
  rc_display_name :: string

record env =
  PROJECT_ID :: string
  LOCATION :: string
  RAG_DEFAULT_TOP_K :: int
  RAG_DEFAULT_SEARCH_TOP_K :: int
  RAG_DEFAULT_VECTOR_DISTANCE_THRESHOLD :: rat
  list_corpora :: "string + raw_corpus list"
  filter_ok :: "rat \<Rightarrow> bool"
  retrieval_query :: "string \<Rightarrow> string \<Rightarrow> retrieval_config \<Rightarrow> string + rag_response"
  dict_repr :: "pydict \<Rightarrow> string"

record query_response =
  q_status :: string
  q_corpus_id :: "string option"
  q_results :: "result list option"
  q_count :: "nat option"
  q_query :: "string option"
  q_metadata_filter :: "pydict option"
  q_message :: string
  q_note :: "string option"
  q_error_message :: "string option"

text \<open>\<open>if metadata_filter:\<close> holds for a dict that is given and not empty.\<close>

definition filter_given :: "pydict option \<Rightarrow> bool" where
  "filter_given metadata_filter = (case metadata_filter of None \<Rightarrow> False | Some d \<Rightarrow> d \<noteq> [])"

definition normalized_filter_of :: "pydict option \<Rightarrow> pydict" where
  "normalized_filter_of metadata_filter =
     (case metadata_filter of
        None \<Rightarrow> []
      | Some d \<Rightarrow> if d \<noteq> [] then create_metadata_filter d else [])"

text \<open>Lines 637 to 657: the retrieval configuration that is sent.\<close>

definition retrieval_config_of :: "env \<Rightarrow> int \<Rightarrow> rat \<Rightarrow> pydict \<Rightarrow> retrieval_config" where
  "retrieval_config_of e top_k vector_distance_threshold normalized_filter =
     \<lparr>rc_top_k = (if normalized_filter \<noteq> [] then top_k * 2 else top_k),
      rc_filter = (if filter_ok e vector_distance_threshold
                   then Some vector_distance_threshold else None)\<rparr>"

definition response_contexts :: "rag_response \<Rightarrow> ctx list" where
  "response_contexts response =
     (case response of NoContexts \<Rightarrow> [] | Contexts cs \<Rightarrow> cs | NestedContexts cs \<Rightarrow> cs)"

text \<open>Lines 835 to 846: the note about several chunks of one file.\<close>

definition note_of :: "result list \<Rightarrow> string" where
  "note_of results =
     (if length results > 1 \<and> \<not> distinct (map r_source_uri results)
      then '' Note: Multiple chunks retrieved from the same document(s) - this is normal as documents are split into chunks for better search.''
      else [])"

definition filter_suffix :: "env \<Rightarrow> pydict option \<Rightarrow> string" where
  "filter_suffix e metadata_filter =
     (case metadata_filter of
        None \<Rightarrow> []
      | Some d \<Rightarrow> if d \<noteq> [] then '' with metadata filter: '' @ dict_repr e d else [])"

definition corpus_path :: "env \<Rightarrow> string \<Rightarrow> string" where
  "corpus_path e cid = ''projects/'' @ PROJECT_ID e @ ''/locations/'' @ LOCATION e @ ''/ragCorpora/'' @ cid"

definition query_rag_corpus ::
    "env \<Rightarrow> string \<Rightarrow> string \<Rightarrow> int option \<Rightarrow> rat option \<Rightarrow> pydict option \<Rightarrow> query_response" where
  "query_rag_corpus e cid query_text top_k vector_distance_threshold metadata_filter =
     (let top_k = (case top_k of None \<Rightarrow> RAG_DEFAULT_TOP_K e | Some k \<Rightarrow> k);
          vdt = (case vector_distance_threshold of
                   None \<Rightarrow> RAG_DEFAULT_VECTOR_DISTANCE_THRESHOLD e | Some t \<Rightarrow> t);
          normalized_filter = normalized_filter_of metadata_filter
      in case retrieval_query e (corpus_path e cid) query_text
                (retrieval_config_of e top_k vdt normalized_filter) of
           Inl err \<Rightarrow>
             \<lparr>q_status = ''error'', q_corpus_id = Some cid, q_results = None, q_count = None,
              q_query = None, q_metadata_filter = None,
              q_message = ''Failed to query corpus: '' @ err,
              q_note = None, q_error_message = Some err\<rparr>
         | Inr response \<Rightarrow>
             (let results = process_contexts normalized_filter top_k (response_contexts response) [];
                  note = note_of results
              in \<lparr>q_status = ''success'', q_corpus_id = Some cid, q_results = Some results,
                  q_count = Some (length results), q_query = Some query_text,
                  q_metadata_filter = (if filter_given metadata_filter then metadata_filter else None),
                  q_message = ''Found '' @ str_nat (length results) @ '' results for query: ''
                              @ quoted query_text @ filter_suffix e metadata_filter @ note,
                  q_note = (if note \<noteq> [] then Some note else None),
                  q_error_message = None\<rparr>))"

section \<open>Searching all corpora (list_rag_corpora, search_all_corpora, search_corpus_by_name)\<close>

text \<open>
  A corpus as \<open>list_rag_corpora\<close> reports it. The description, creation time, file
  count and status of the source's dict are not read by the search operations and are
  left out.
\<close>

record corpus =
  c_id :: string
  c_name :: string
  c_display_name :: string

record list_response =
  l_status :: string
  l_corpora :: "corpus list option"
  l_count :: "nat option"
  l_message :: string
  l_error_message :: "string option"

definition corpus_of_raw :: "raw_corpus \<Rightarrow> corpus" where
  "corpus_of_raw c =
     \<lparr>c_id = last (split ''/'' (rc_name c)), c_name = rc_name c, c_display_name = rc_display_name c\<rparr>"

definition list_rag_corpora :: "env \<Rightarrow> list_response" where
  "list_rag_corpora e =
     (case list_corpora e of
        Inl err \<Rightarrow>
          \<lparr>l_status = ''error'', l_corpora = None, l_count = None,
           l_message = ''Failed to list RAG corpora: '' @ err, l_error_message = Some err\<rparr>
      | Inr corpora \<Rightarrow>
          (let corpus_list = map corpus_of_raw corpora
           in \<lparr>l_status = ''success'', l_corpora = Some corpus_list,
               l_count = Some (length corpus_list),
               l_message = ''Found '' @ str_nat (length corpus_list) @ '' RAG corpora'',
               l_error_message = None\<rparr>))"

text \<open>Lines 943 to 949: the file name shown in a citation.\<close>

definition file_name_of :: "string \<Rightarrow> string" where
  "file_name_of source_path =
     (let file_name = (if contains ''/'' source_path then last (split ''/'' source_path)
                       else source_path)
      in if contains ''#'' file_name then hd (split ''#'' file_name) else file_name)"

text \<open>Lines 938 to 953: the corpus and the citation written into a result.\<close>

definition annotate :: "string \<Rightarrow> string \<Rightarrow> result \<Rightarrow> result" where
  "annotate cid cname r =
     (let citation = ''[Source: '' @ cname @ '' ('' @ cid @ '')]'';
          citation = (case r_source_uri r of
                        None \<Rightarrow> citation
                      | Some u \<Rightarrow> if u \<noteq> [] then citation @ '' File: '' @ file_name_of u
                                  else citation);
          citation = (case r_page_number r of
                        None \<Rightarrow> citation
                      | Some p \<Rightarrow> if p \<noteq> PNone then citation @ '' Page: '' @ py_str p
                                  else citation)
      in r\<lparr>r_corpus_id := Some cid, r_corpus_name := Some cname, r_citation := Some citation\<rparr>)"

record corpus_entry =
  ce_corpus_id :: string
  ce_corpus_name :: string
  ce_results :: "result list"
  ce_count :: nat

record search_state =
  all_results :: "result list"
  corpus_results_map :: "(string \<times> corpus_entry) list"
  searched_corpora :: "string list"

text \<open>
  Lines 918 to 966: one iteration of the loop over the corpora, given the answer of
  \<open>query_rag_corpus\<close> for this corpus. \<open>corpus_results.get("results", [])\<close> is the
  empty list when the key is missing.
\<close>

definition annotated_results :: "corpus \<Rightarrow> query_response \<Rightarrow> result list" where
  "annotated_results c corpus_results =
     (let results = (case q_results corpus_results of None \<Rightarrow> [] | Some rs \<Rightarrow> rs)
      in map (annotate (c_id c) (c_display_name c)) results)"

definition search_step :: "corpus \<Rightarrow> query_response \<Rightarrow> search_state \<Rightarrow> search_state" where
  "search_step c corpus_results st =
     (if q_status corpus_results = ''success'' then
        (let corpus_specific_results = annotated_results c corpus_results;
             st' = st\<lparr>all_results := all_results st @ corpus_specific_results\<rparr>
         in if corpus_specific_results \<noteq> []
            then st'\<lparr>corpus_results_map :=
                       dict_set (corpus_results_map st') (c_display_name c)
                         \<lparr>ce_corpus_id = c_id c, ce_corpus_name = c_display_name c,
                          ce_results = corpus_specific_results,
                          ce_count = length corpus_specific_results\<rparr>,
                     searched_corpora := searched_corpora st' @ [c_display_name c]\<rparr>
            else st')
      else st)"

fun search_loop :: "(corpus \<Rightarrow> query_response) \<Rightarrow> corpus list \<Rightarrow> search_state \<Rightarrow> search_state" where
  "search_loop q [] st = st"
| "search_loop q (c # cs) st = search_loop q cs (search_step c (q c) st)"

text \<open>Lines 969 to 972: the stable sort, best score first; a missing score counts as 0.\<close>

definition score_key :: "result \<Rightarrow> rat" where
  "score_key r = (case r_relevance_score r of None \<Rightarrow> 0 | Some x \<Rightarrow> x)"

definition sort_results :: "result list \<Rightarrow> result list" where
  "sort_results rs = sort_key (\<lambda>r. - score_key r) rs"

text \<open>
  Lines 975 to 980: one summary line per searched corpus. \<open>Inl\<close> is the \<open>KeyError\<close>
  of the lookup, with its message.
\<close>

definition summary_line :: "string \<Rightarrow> corpus_entry \<Rightarrow> string" where
  "summary_line n corpus_data =
     n @ '' ('' @ ce_corpus_id corpus_data @ ''): '' @ str_nat (ce_count corpus_data) @ '' results''"

fun citations_summary_of :: "(string \<times> corpus_entry) list \<Rightarrow> string list \<Rightarrow> string + string list" where
  "citations_summary_of m [] = Inr []"
| "citations_summary_of m (n # ns) =
     (case map_of m n of
        None \<Rightarrow> Inl (quoted n)
      | Some corpus_data \<Rightarrow>
          (case citations_summary_of m ns of
             Inl err \<Rightarrow> Inl err
           | Inr ls \<Rightarrow> Inr (summary_line n corpus_data # ls)))"

record search_response =
  s_status :: string
  s_results :: "result list option"
  s_corpus_results :: "(string \<times> corpus_entry) list option"
  s_searched_corpora :: "string list option"
  s_citations_summary :: "string list option"
  s_count :: "nat option"
  s_query :: "string option"
  s_metadata_filter :: "pydict option"
  s_message :: string
  s_citation_note :: "string option"
  s_error_message :: "string option"

definition search_error :: "string \<Rightarrow> string \<Rightarrow> search_response" where
  "search_error err msg =
     \<lparr>s_status = ''error'', s_results = None, s_corpus_results = None, s_searched_corpora = None,
      s_citations_summary = None, s_count = None, s_query = None, s_metadata_filter = None,
      s_message = msg, s_citation_note = None, s_error_message = Some err\<rparr>"

definition search_warning :: "string \<Rightarrow> search_response" where
  "search_warning msg =
     \<lparr>s_status = ''warning'', s_results = None, s_corpus_results = None, s_searched_corpora = None,
      s_citations_summary = None, s_count = None, s_query = None, s_metadata_filter = None,
      s_message = msg, s_citation_note = None, s_error_message = None\<rparr>"

text \<open>
  \<open>search_all_corpora\<close> with the per-corpus query as a parameter \<open>q\<close>; below it is
  \<open>query_rag_corpus\<close>. The outer \<open>try\<close> turns the only exception of the body into
  the error answer.
\<close>

definition search_all_with ::
    "env \<Rightarrow> (corpus \<Rightarrow> query_response) \<Rightarrow> string \<Rightarrow> pydict option \<Rightarrow> search_response" where
  "search_all_with e q query_text metadata_filter =
     (let corpora_response = list_rag_corpora e in
      if l_status corpora_response \<noteq> ''success'' then
        search_error (''Failed to list corpora: ''
                      @ (case l_error_message corpora_response of None \<Rightarrow> [] | Some m \<Rightarrow> m))
          ''Failed to search all corpora - could not retrieve corpus list''
      else
        (let all_corpora = (case l_corpora corpora_response of None \<Rightarrow> [] | Some cs \<Rightarrow> cs) in
         if all_corpora = [] then search_warning ''No corpora found to search in''
         else
           (let st = search_loop q all_corpora
                       \<lparr>all_results = [], corpus_results_map = [], searched_corpora = []\<rparr>;
                sorted_results = sort_results (all_results st)
            in case citations_summary_of (corpus_results_map st) (searched_corpora st) of
                 Inl err \<Rightarrow> search_error err (''Failed to search all corpora: '' @ err)
               | Inr citations_summary \<Rightarrow>
                   \<lparr>s_status = ''success'', s_results = Some sorted_results,
                    s_corpus_results = Some (corpus_results_map st),
                    s_searched_corpora = Some (searched_corpora st),
                    s_citations_summary = Some citations_summary,
                    s_count = Some (length sorted_results),
                    s_query = Some query_text,
                    s_metadata_filter = (if filter_given metadata_filter then metadata_filter else None),
                    s_message = ''Found '' @ str_nat (length sorted_results) @ '' results for query ''
                                @ quoted query_text @ '' across ''
                                @ str_nat (length (searched_corpora st)) @ '' corpora''
                                @ filter_suffix e metadata_filter,
                    s_citation_note = Some ''Each result includes a citation indicating its source corpus and file.'',
                    s_error_message = None\<rparr>)))"

text \<open>Lines 890 to 893 and 923 to 929: the query sent for one corpus, after the defaults.\<close>

definition corpus_query ::
    "env \<Rightarrow> string \<Rightarrow> int option \<Rightarrow> rat option \<Rightarrow> pydict option \<Rightarrow> corpus \<Rightarrow> query_response" where
  "corpus_query e query_text top_k_per_corpus vector_distance_threshold metadata_filter c =
     (let top_k_per_corpus = (case top_k_per_corpus of
                                None \<Rightarrow> RAG_DEFAULT_SEARCH_TOP_K e | Some k \<Rightarrow> k);
          vdt = (case vector_distance_threshold of
                   None \<Rightarrow> RAG_DEFAULT_VECTOR_DISTANCE_THRESHOLD e | Some t \<Rightarrow> t)
      in query_rag_corpus e (c_id c) query_text (Some top_k_per_corpus) (Some vdt) metadata_filter)"

definition search_all_corpora ::
    "env \<Rightarrow> string \<Rightarrow> int option \<Rightarrow> rat option \<Rightarrow> pydict option \<Rightarrow> search_response" where
  "search_all_corpora e query_text top_k_per_corpus vector_distance_threshold metadata_filter =
     search_all_with e
       (corpus_query e query_text top_k_per_corpus vector_distance_threshold metadata_filter)
       query_text metadata_filter"





section \<open>Concrete inputs\<close>

text \<open>A service with one corpus, Science (id 42), that returns one passage of unit3.pdf with a
  structured page number 7.\<close>

definition unit3_ctx :: ctx where
  "unit3_ctx =
     \<lparr>ctx_text = Some ''Plants make their own food.'', ctx_source_uri = Some ''gs://b/unit3.pdf'',
      ctx_relevance_score = Some (4 / 5), ctx_attrs = [(''page_number'', PInt 7)],
      ctx_dict = None, ctx_dir = [], ctx_metadata = None, ctx_rag_metadata = None\<rparr>"

definition science_env :: env where
  "science_env =
     \<lparr>PROJECT_ID = ''p'', LOCATION = ''l'', RAG_DEFAULT_TOP_K = 10, RAG_DEFAULT_SEARCH_TOP_K = 5,
      RAG_DEFAULT_VECTOR_DISTANCE_THRESHOLD = 1 / 2,
      list_corpora = Inr [\<lparr>rc_name = ''projects/p/locations/l/ragCorpora/42'',
                            rc_display_name = ''Science''\<rparr>],
      filter_ok = (\<lambda>t. True),
      retrieval_query = (\<lambda>path query_text cfg. Inr (Contexts [unit3_ctx])),
      dict_repr = (\<lambda>d. ''{...}'')\<rparr>"

text \<open>A document ingested with the board "Tamil Nadu Board": its stored metadata is what
  \<open>validate_metadata\<close> normalises, and the service returns one passage of it.\<close>

definition tn_metadata :: pydict where
  "tn_metadata =
     (case normalized (validate_metadata
             [(''board'', PStr ''Tamil Nadu Board''), (''grade'', PStr ''10''),
              (''subject'', PStr ''Science'')] False) of
        None \<Rightarrow> [] | Some d \<Rightarrow> d)"

definition tn_ctx :: ctx where
  "tn_ctx =
     \<lparr>ctx_text = Some ''Heat is a form of energy.'', ctx_source_uri = Some ''gs://b/tn10.pdf'',
      ctx_relevance_score = Some (3 / 4), ctx_attrs = [], ctx_dict = None, ctx_dir = [],
      ctx_metadata = Some (MetaDict tn_metadata), ctx_rag_metadata = None\<rparr>"

definition tn_env :: env where
  "tn_env = science_env\<lparr>retrieval_query := (\<lambda>path query_text cfg. Inr (Contexts [tn_ctx]))\<rparr>"

text \<open>A service that returns as many grade 10 passages as it is asked for.\<close>

definition grade10_ctx :: ctx where
  "grade10_ctx =
     \<lparr>ctx_text = Some ''Light travels in straight lines.'', ctx_source_uri = Some ''gs://b/g10.pdf'',
      ctx_relevance_score = Some (1 / 2), ctx_attrs = [], ctx_dict = None, ctx_dir = [],
      ctx_metadata = Some (MetaDict [(''grade'', PStr ''10'')]), ctx_rag_metadata = None\<rparr>"

definition grade_env :: env where
  "grade_env =
     science_env\<lparr>retrieval_query :=
       (\<lambda>path query_text cfg. Inr (Contexts (replicate (nat (rc_top_k cfg)) grade10_ctx)))\<rparr>"

text \<open>A service that returns seven grade 10 passages whatever it is asked for.\<close>

definition eager_env :: env where
  "eager_env =
     science_env\<lparr>retrieval_query :=
       (\<lambda>path query_text cfg. Inr (Contexts (replicate 7 grade10_ctx)))\<rparr>"

text \<open>A directory with no corpus, and one that cannot be listed.\<close>

definition empty_env :: env where
  "empty_env = science_env\<lparr>list_corpora := Inr []\<rparr>"


text \<open>Three corpora A, B and C. In \<open>abc_env\<close> the query of B raises; in \<open>quiet_env\<close> it
  succeeds and returns no passage.\<close>

definition abc_corpora :: "raw_corpus list" where
  "abc_corpora =
     [\<lparr>rc_name = ''projects/p/locations/l/ragCorpora/1'', rc_display_name = ''A''\<rparr>,
      \<lparr>rc_name = ''projects/p/locations/l/ragCorpora/2'', rc_display_name = ''B''\<rparr>,
      \<lparr>rc_name = ''projects/p/locations/l/ragCorpora/3'', rc_display_name = ''C''\<rparr>]"

definition abc_env :: env where
  "abc_env =
     science_env\<lparr>list_corpora := Inr abc_corpora,
                 retrieval_query :=
                   (\<lambda>path query_text cfg.
                      if path = ''projects/p/locations/l/ragCorpora/2'' then Inl ''deadline exceeded''
                      else Inr (Contexts [unit3_ctx]))\<rparr>"

definition quiet_env :: env where
  "quiet_env =
     science_env\<lparr>list_corpora := Inr abc_corpora,
                 retrieval_query :=
                   (\<lambda>path query_text cfg.
                      if path = ''projects/p/locations/l/ragCorpora/2'' then Inr (Contexts [])
                      else Inr (Contexts [unit3_ctx]))\<rparr>"

text \<open>Passages with a page pattern in the text and, but for the third, a page fragment in
  the URI: one with a page number in its metadata, one with a page number in its
  \<open>__dict__\<close> too, one with neither and no fragment, and one with no structured page
  field.\<close>

definition metadata_page_ctx :: ctx where
  "metadata_page_ctx =
     \<lparr>ctx_text = Some ''As shown on page 45, the cell divides.'',
      ctx_source_uri = Some ''gs://b/f.pdf#page=12'', ctx_relevance_score = None, ctx_attrs = [],
      ctx_dict = None, ctx_dir = [], ctx_metadata = Some (MetaDict [(''page_number'', PInt 3)]),
      ctx_rag_metadata = None\<rparr>"

definition dict_page_ctx :: ctx where
  "dict_page_ctx =
     \<lparr>ctx_text = Some ''As shown on page 45, the cell divides.'',
      ctx_source_uri = Some ''gs://b/f.pdf#page=12'', ctx_relevance_score = None, ctx_attrs = [],
      ctx_dict = Some [(''page_number'', PInt 9)], ctx_dir = [],
      ctx_metadata = Some (MetaDict [(''page_number'', PInt 3)]), ctx_rag_metadata = None\<rparr>"

definition text_page_ctx :: ctx where
  "text_page_ctx =
     \<lparr>ctx_text = Some ''As shown on page 45, the cell divides.'',
      ctx_source_uri = Some ''gs://b/f.pdf'', ctx_relevance_score = None, ctx_attrs = [],
      ctx_dict = None, ctx_dir = [], ctx_metadata = None, ctx_rag_metadata = None\<rparr>"

definition page_ctx :: ctx where
  "page_ctx =
     \<lparr>ctx_text = Some ''As shown on page 45, the cell divides.'',
      ctx_source_uri = Some ''gs://b/f.pdf#page=12'', ctx_relevance_score = None, ctx_attrs = [],
      ctx_dict = None, ctx_dir = [''text'', ''source_uri''], ctx_metadata = None,
      ctx_rag_metadata = None\<rparr>"

section \<open>Helper lemmas\<close>

lemma dict_set_not_Nil: "dict_set d k v \<noteq> []"
  by (cases d) (auto split: if_splits)

lemma dict_set_keys: "fst ` set (dict_set d k v) = insert k (fst ` set d)"
proof (induction d)
  case Nil
  show ?case by simp
next
  case (Cons a d)
  obtain k' v' where a: "a = (k', v')" by (cases a)
  show ?case
  proof (cases "k' = k")
    case True
    then show ?thesis by (simp add: a)
  next
    case False
    then show ?thesis by (simp add: a Cons.IH insert_commute)
  qed
qed

lemma filter_entry_not_Nil: "acc \<noteq> [] \<Longrightarrow> filter_entry acc fv \<noteq> []"
  by (cases fv) (simp add: filter_entry_def dict_set_not_Nil)

lemma foldl_filter_entry_not_Nil: "acc \<noteq> [] \<Longrightarrow> foldl filter_entry acc d \<noteq> []"
  by (induction d arbitrary: acc) (simp_all add: filter_entry_not_Nil)

lemma foldl_filter_entry_Nil:
  "(foldl filter_entry [] d = []) =
   (\<not> list_ex (\<lambda>kv. fst kv \<in> set (REQUIRED_METADATA_FIELDS @ OPTIONAL_METADATA_FIELDS)) d)"
proof (induction d)
  case Nil
  show ?case by simp
next
  case (Cons fv d)
  obtain f v where fv: "fv = (f, v)" by (cases fv)
  show ?case
  proof (cases "f \<in> set (REQUIRED_METADATA_FIELDS @ OPTIONAL_METADATA_FIELDS)")
    case True
    then have "filter_entry [] fv \<noteq> []"
      by (simp add: fv filter_entry_def)
    then have "foldl filter_entry (filter_entry [] fv) d \<noteq> []"
      by (rule foldl_filter_entry_not_Nil)
    with True show ?thesis by (simp add: fv)
  next
    case False
    then have "filter_entry [] fv = []"
      by (simp add: fv filter_entry_def)
    with False Cons.IH show ?thesis by (simp add: fv)
  qed
qed

lemma normalized_filter_of_not_Nil:
  "(normalized_filter_of mf \<noteq> []) =
   (case mf of
      None \<Rightarrow> False
    | Some d \<Rightarrow> list_ex (\<lambda>kv. fst kv \<in> set (REQUIRED_METADATA_FIELDS @ OPTIONAL_METADATA_FIELDS)) d)"
  by (cases mf) (auto simp: normalized_filter_of_def create_metadata_filter_def foldl_filter_entry_Nil)

lemma process_contexts_length:
  "nf \<noteq> [] \<Longrightarrow> int (length acc) < k \<Longrightarrow> int (length (process_contexts nf k cs acc)) \<le> k"
  by (induction cs arbitrary: acc) (auto simp: Let_def)

lemma process_contexts_from:
  "x \<in> set (process_contexts nf k cs acc) \<Longrightarrow> x \<in> set acc \<or> x \<in> build_result ` set cs"
proof (induction cs arbitrary: acc)
  case Nil
  then show ?case by simp
next
  case (Cons c cs)
  from Cons.prems consider
      "x \<in> set (process_contexts nf k cs acc)"
    | "x \<in> set (acc @ [build_result c])"
    | "x \<in> set (process_contexts nf k cs (acc @ [build_result c]))"
    by (auto simp: Let_def split: if_splits)
  then show ?case
  proof cases
    case 1
    from Cons.IH [OF this] show ?thesis by auto
  next
    case 2
    then show ?thesis by auto
  next
    case 3
    from Cons.IH [OF this] show ?thesis by auto
  qed
qed

lemma not_none_PNone: "not_none PNone = None"
  by (simp add: not_none_def)

lemma attr_page_field: "not_none (attr_page c) = attribute_field c"
  by (simp add: attr_page_def attribute_field_def dict_get_def not_none_def split: option.splits)

lemma dict_page_field: "not_none (dict_page c PNone) = dict_field c"
proof (cases "ctx_dict c")
  case None
  then show ?thesis by (simp add: dict_page_def dict_field_def not_none_PNone)
next
  case (Some d)
  then show ?thesis by (simp add: dict_page_def dict_field_def py_or_def)
qed

lemma dict_page_keeps: "p \<noteq> PNone \<Longrightarrow> dict_page c p = p"
  by (simp add: dict_page_def split: option.splits)

lemma metadata_used:
  "find meta_truthy ((case ctx_metadata c of None \<Rightarrow> [] | Some m \<Rightarrow> [m])
                     @ (case ctx_rag_metadata c of None \<Rightarrow> [] | Some m \<Rightarrow> [m]))
   = context_metadata c"
  by (simp add: context_metadata_def split: option.splits)

lemma meta_page_keys_field: "not_none (meta_page_keys d) = metadata_keys d"
  by (simp add: meta_page_keys_def metadata_keys_def py_or_def)

lemma metadata_page_field: "not_none (metadata_page c PNone) = metadata_field c"
proof (cases "context_metadata c")
  case None
  then show ?thesis
    by (simp add: metadata_page_def metadata_field_def metadata_used not_none_PNone)
next
  case (Some m)
  show ?thesis
  proof (cases m)
    case (MetaDict d)
    with Some show ?thesis
      by (simp add: metadata_page_def metadata_field_def metadata_used meta_page_keys_field)
  next
    case (MetaObj d)
    with Some show ?thesis
      by (simp add: metadata_page_def metadata_field_def metadata_used meta_page_keys_field)
  next
    case (MetaOther b od)
    with Some show ?thesis
      by (cases od)
        (simp_all add: metadata_page_def metadata_field_def metadata_used meta_page_keys_field
          not_none_PNone)
  qed
qed

lemma metadata_page_keeps: "p \<noteq> PNone \<Longrightarrow> metadata_page c p = p"
  by (simp add: metadata_page_def)

lemma first_success_single: "first_success [x] = x"
  by (cases x) simp_all

lemma steps_structured:
  "not_none (metadata_page c (dict_page c (attr_page c))) = structured_field c"
proof (cases "attr_page c = PNone")
  case False
  then have "attribute_field c = Some (attr_page c)"
    using attr_page_field [of c] by (simp add: not_none_def)
  with False show ?thesis
    by (simp add: structured_field_def dict_page_keeps metadata_page_keeps not_none_def)
next
  case True
  then have a: "attribute_field c = None"
    using attr_page_field [of c] by (simp add: not_none_def)
  show ?thesis
  proof (cases "dict_page c PNone = PNone")
    case False
    then have "dict_field c = Some (dict_page c PNone)"
      using dict_page_field [of c] by (simp add: not_none_def)
    with False True a show ?thesis
      by (simp add: structured_field_def metadata_page_keeps not_none_def)
  next
    case dnone: True
    then have "dict_field c = None"
      using dict_page_field [of c] by (simp add: not_none_def)
    with dnone True a show ?thesis
      by (simp add: structured_field_def metadata_page_field first_success_single)
  qed
qed

lemma build_result_steps:
  "r_page_number (build_result c)
   = first_success [not_none (metadata_page c (dict_page c (attr_page c))), uri_fragment c,
                    text_pattern c]"
  by (auto simp: build_result_def not_none_def uri_fragment_def text_pattern_def uri_step_def
      text_step_def Let_def split: option.splits)

lemma build_result_page: "r_page_number (build_result c) = spec_page_number c"
  by (simp only: build_result_steps steps_structured spec_page_number_def)

lemma uri_page_12: "uri_page ''gs://b/f.pdf#page=12'' = Some 12"
  by code_simp







lemma search_step_kept:
  "q_status r = ''success'' \<Longrightarrow> annotated_results c r \<noteq> [] \<Longrightarrow>
   search_step c r st =
     st\<lparr>all_results := all_results st @ annotated_results c r,
        corpus_results_map :=
          dict_set (corpus_results_map st) (c_display_name c)
            \<lparr>ce_corpus_id = c_id c, ce_corpus_name = c_display_name c,
             ce_results = annotated_results c r, ce_count = length (annotated_results c r)\<rparr>,
        searched_corpora := searched_corpora st @ [c_display_name c]\<rparr>"
  by (simp add: search_step_def Let_def)

lemma search_step_skipped:
  "q_status r \<noteq> ''success'' \<or> annotated_results c r = [] \<Longrightarrow> search_step c r st = st"
  by (auto simp: search_step_def Let_def)

lemma search_loop_all_results:
  "all_results (search_loop q cs st) =
   all_results st @ concat (map (\<lambda>c. annotated_results c (q c))
                              (filter (\<lambda>c. q_status (q c) = ''success'') cs))"
proof (induction cs arbitrary: st)
  case Nil
  show ?case by simp
next
  case (Cons c cs)
  show ?case
  proof (cases "q_status (q c) = ''success'' \<and> annotated_results c (q c) \<noteq> []")
    case True
    then show ?thesis by (simp add: Cons.IH search_step_kept)
  next
    case False
    then have "search_step c (q c) st = st" by (simp add: search_step_skipped)
    with False show ?thesis by (auto simp: Cons.IH)
  qed
qed

lemma search_loop_searched:
  "searched_corpora (search_loop q cs st) =
   searched_corpora st @ map c_display_name
     (filter (\<lambda>c. q_status (q c) = ''success'' \<and> annotated_results c (q c) \<noteq> []) cs)"
proof (induction cs arbitrary: st)
  case Nil
  show ?case by simp
next
  case (Cons c cs)
  show ?case
  proof (cases "q_status (q c) = ''success'' \<and> annotated_results c (q c) \<noteq> []")
    case True
    then show ?thesis by (simp add: Cons.IH search_step_kept)
  next
    case False
    then have "search_step c (q c) st = st" by (simp add: search_step_skipped)
    with False show ?thesis by (auto simp: Cons.IH)
  qed
qed

lemma search_loop_keys:
  "set (searched_corpora st) \<subseteq> fst ` set (corpus_results_map st) \<Longrightarrow>
   set (searched_corpora (search_loop q cs st)) \<subseteq> fst ` set (corpus_results_map (search_loop q cs st))"
proof (induction cs arbitrary: st)
  case Nil
  then show ?case by simp
next
  case (Cons c cs)
  have "set (searched_corpora (search_step c (q c) st))
        \<subseteq> fst ` set (corpus_results_map (search_step c (q c) st))"
  proof (cases "q_status (q c) = ''success'' \<and> annotated_results c (q c) \<noteq> []")
    case True
    with Cons.prems show ?thesis by (auto simp: search_step_kept dict_set_keys)
  next
    case False
    then have "search_step c (q c) st = st" by (simp add: search_step_skipped)
    with Cons.prems show ?thesis by simp
  qed
  from Cons.IH [OF this] show ?case by simp
qed

lemma citations_summary_of_Inr:
  "set ns \<subseteq> fst ` set m \<Longrightarrow> \<exists>ls. citations_summary_of m ns = Inr ls"
proof (induction ns)
  case Nil
  show ?case by simp
next
  case (Cons n ns)
  then obtain ls where ls: "citations_summary_of m ns = Inr ls" by auto
  from Cons.prems have "n \<in> fst ` set m" by simp
  then obtain d where "map_of m n = Some d"
    by (cases "map_of m n") (auto simp: map_of_eq_None_iff)
  with ls show ?case by simp
qed

lemma search_loop_eq:
  assumes "\<forall>c \<in> set cs. q' c = q c
             \<or> (q_status (q c) = ''success'' \<and> q_results (q c) = Some [] \<and> q_status (q' c) \<noteq> ''success'')"
  shows "search_loop q' cs st = search_loop q cs st"
  using assms
proof (induction cs arbitrary: st)
  case Nil
  show ?case by simp
next
  case (Cons c cs)
  have "search_step c (q' c) st = search_step c (q c) st"
  proof (cases "q' c = q c")
    case True
    then show ?thesis by simp
  next
    case False
    with Cons.prems have "q_status (q c) = ''success''" "q_results (q c) = Some []"
      "q_status (q' c) \<noteq> ''success''" by auto
    then show ?thesis by (simp add: search_step_skipped annotated_results_def)
  qed
  with Cons show ?case by simp
qed

lemma list_rag_corpora_ok:
  "list_corpora e = Inr raws \<Longrightarrow>
   l_status (list_rag_corpora e) = ''success'' \<and>
   l_corpora (list_rag_corpora e) = Some (map corpus_of_raw raws)"
  by (simp add: list_rag_corpora_def Let_def)


lemma search_all_with_success:
  assumes "list_corpora e = Inr raws" and "raws \<noteq> []"
  shows "\<exists>ls. search_all_with e q qt mf =
     (let st = search_loop q (map corpus_of_raw raws)
                 \<lparr>all_results = [], corpus_results_map = [], searched_corpora = []\<rparr>
      in \<lparr>s_status = ''success'', s_results = Some (sort_results (all_results st)),
          s_corpus_results = Some (corpus_results_map st),
          s_searched_corpora = Some (searched_corpora st),
          s_citations_summary = Some ls,
          s_count = Some (length (sort_results (all_results st))),
          s_query = Some qt,
          s_metadata_filter = (if filter_given mf then mf else None),
          s_message = ''Found '' @ str_nat (length (sort_results (all_results st)))
                      @ '' results for query '' @ quoted qt @ '' across ''
                      @ str_nat (length (searched_corpora st)) @ '' corpora''
                      @ filter_suffix e mf,
          s_citation_note = Some ''Each result includes a citation indicating its source corpus and file.'',
          s_error_message = None\<rparr>)"
proof -
  let ?st = "search_loop q (map corpus_of_raw raws)
               \<lparr>all_results = [], corpus_results_map = [], searched_corpora = []\<rparr>"
  have "set (searched_corpora ?st) \<subseteq> fst ` set (corpus_results_map ?st)"
    by (rule search_loop_keys) simp
  then obtain ls where "citations_summary_of (corpus_results_map ?st) (searched_corpora ?st) = Inr ls"
    using citations_summary_of_Inr by blast
  with assms show ?thesis
    by (simp add: search_all_with_def list_rag_corpora_ok Let_def)
qed

lemma annotated_results_corpus:
  "r \<in> set (annotated_results c resp) \<Longrightarrow>
   r_corpus_id r = Some (c_id c) \<and> r_corpus_name r = Some (c_display_name c)"
  by (auto simp: annotated_results_def annotate_def Let_def)

lemma split_acc_not_Nil: "split_acc sep acc s \<noteq> []"
  by (induction sep acc s rule: split_acc.induct) auto

lemma split_not_Nil: "split sep s \<noteq> []"
  by (simp add: split_def split_acc_not_Nil)

lemma annotate_citation:
  assumes "r_source_uri r = Some u" and "u \<noteq> []" and "r_page_number r = Some p" and "p \<noteq> PNone"
  shows "r_citation (annotate cid cname r)
         = Some (''[Source: '' @ cname @ '' ('' @ cid @ '')]'' @ '' File: '' @ file_name_of u
                 @ '' Page: '' @ py_str p)"
  using assms by (simp add: annotate_def Let_def)

lemma process_contexts_no_filter: "process_contexts [] k cs acc = acc @ map build_result cs"
  by (induction cs arbitrary: acc) (simp_all add: passes_filter_def Let_def)

lemma annotated_results_Nil:
  "(annotated_results c r \<noteq> []) = (q_results r \<noteq> None \<and> q_results r \<noteq> Some [])"
  by (simp add: annotated_results_def Let_def split: option.splits)

lemma dict_set_entries: "nd \<in> set (dict_set m k v) \<Longrightarrow> nd \<in> set m \<or> nd = (k, v)"
  by (induction m) (auto split: if_splits)

lemma search_loop_map_keys:
  "fst ` set (corpus_results_map (search_loop q cs st))
   = fst ` set (corpus_results_map st)
     \<union> c_display_name ` set (filter (\<lambda>c. q_status (q c) = ''success''
                                            \<and> annotated_results c (q c) \<noteq> []) cs)"
proof (induction cs arbitrary: st)
  case Nil
  show ?case by simp
next
  case (Cons c cs)
  show ?case
  proof (cases "q_status (q c) = ''success'' \<and> annotated_results c (q c) \<noteq> []")
    case True
    then show ?thesis by (simp add: Cons.IH search_step_kept dict_set_keys Un_commute insert_commute)
  next
    case False
    then have "search_step c (q c) st = st" by (simp add: search_step_skipped)
    with False show ?thesis by (auto simp: Cons.IH)
  qed
qed

lemma search_loop_map_entries:
  "nd \<in> set (corpus_results_map (search_loop q cs st)) \<Longrightarrow>
   nd \<in> set (corpus_results_map st)
   \<or> (\<exists>c \<in> set cs. q_status (q c) = ''success'' \<and> annotated_results c (q c) \<noteq> []
         \<and> nd = (c_display_name c,
                 \<lparr>ce_corpus_id = c_id c, ce_corpus_name = c_display_name c,
                  ce_results = annotated_results c (q c),
                  ce_count = length (annotated_results c (q c))\<rparr>))"
proof (induction cs arbitrary: st)
  case Nil
  then show ?case by simp
next
  case (Cons c cs)
  from Cons.prems have "nd \<in> set (corpus_results_map (search_loop q cs (search_step c (q c) st)))"
    by simp
  from Cons.IH [OF this] consider
      "nd \<in> set (corpus_results_map (search_step c (q c) st))"
    | "\<exists>c' \<in> set cs. q_status (q c') = ''success'' \<and> annotated_results c' (q c') \<noteq> []
         \<and> nd = (c_display_name c',
                 \<lparr>ce_corpus_id = c_id c', ce_corpus_name = c_display_name c',
                  ce_results = annotated_results c' (q c'),
                  ce_count = length (annotated_results c' (q c'))\<rparr>)"
    by blast
  then show ?case
  proof cases
    case 1
    show ?thesis
    proof (cases "q_status (q c) = ''success'' \<and> annotated_results c (q c) \<noteq> []")
      case True
      with 1 have "nd \<in> set (dict_set (corpus_results_map st) (c_display_name c)
                     \<lparr>ce_corpus_id = c_id c, ce_corpus_name = c_display_name c,
                      ce_results = annotated_results c (q c),
                      ce_count = length (annotated_results c (q c))\<rparr>)"
        by (simp add: search_step_kept)
      from dict_set_entries [OF this] True show ?thesis by auto
    next
      case False
      then have "search_step c (q c) st = st" by (simp add: search_step_skipped)
      with 1 show ?thesis by simp
    qed
  next
    case 2
    then show ?thesis by auto
  qed
qed

lemma citations_summary_lines:
  "citations_summary_of m ns = Inr ls \<Longrightarrow>
   list_all2 (\<lambda>n l. \<exists>d. map_of m n = Some d \<and> l = summary_line n d) ns ls"
proof (induction ns arbitrary: ls)
  case Nil
  then show ?case by simp
next
  case (Cons n ns)
  from Cons.prems obtain d ls' where d: "map_of m n = Some d"
    and rest: "citations_summary_of m ns = Inr ls'" and ls: "ls = summary_line n d # ls'"
    by (auto split: option.splits sum.splits)
  from Cons.IH [OF rest] d ls show ?case by simp
qed

lemma search_all_with_fields:
  assumes "list_corpora e = Inr raws" and "raws \<noteq> []"
  shows "\<exists>ls. citations_summary_of
               (corpus_results_map (search_loop q (map corpus_of_raw raws)
                  \<lparr>all_results = [], corpus_results_map = [], searched_corpora = []\<rparr>))
               (searched_corpora (search_loop q (map corpus_of_raw raws)
                  \<lparr>all_results = [], corpus_results_map = [], searched_corpora = []\<rparr>)) = Inr ls
           \<and> s_citations_summary (search_all_with e q qt mf) = Some ls
           \<and> s_corpus_results (search_all_with e q qt mf)
             = Some (corpus_results_map (search_loop q (map corpus_of_raw raws)
                  \<lparr>all_results = [], corpus_results_map = [], searched_corpora = []\<rparr>))
           \<and> s_searched_corpora (search_all_with e q qt mf)
             = Some (searched_corpora (search_loop q (map corpus_of_raw raws)
                  \<lparr>all_results = [], corpus_results_map = [], searched_corpora = []\<rparr>))"
proof -
  let ?st = "search_loop q (map corpus_of_raw raws)
               \<lparr>all_results = [], corpus_results_map = [], searched_corpora = []\<rparr>"
  have "set (searched_corpora ?st) \<subseteq> fst ` set (corpus_results_map ?st)"
    by (rule search_loop_keys) simp
  then obtain ls where "citations_summary_of (corpus_results_map ?st) (searched_corpora ?st) = Inr ls"
    using citations_summary_of_Inr by blast
  with assms show ?thesis
    by (simp add: search_all_with_def list_rag_corpora_ok Let_def)
qed

lemma uri_page_plain: "uri_page ''gs://b/f.pdf'' = None"
  by code_simp

lemma text_page_45: "text_page page_patterns ''As shown on page 45, the cell divides.'' = Some 45"
  by code_simp

section \<open>The claims\<close>

text \<open>
  C1 (citation format). For a passage of collection Science (id 42) sourced from
  gs://b/unit3.pdf with recovered page 7, \<open>search_all_corpora\<close> attaches the citation
  \<open>[Source: Science (42)] File: unit3.pdf Page: 7\<close>: the bracket is closed after the
  collection id, and the file name and the page follow it outside the bracket.
\<close>

theorem citation_science_example:
  "map_option (map r_citation) (s_results (search_all_corpora science_env ''plants'' None None None))
   = Some [Some ''[Source: Science (42)] File: unit3.pdf Page: 7'']"
  by code_simp

text \<open>
  C2 (filter symmetry). A document ingested through \<open>validate_metadata\<close> with the board
  "Tamil Nadu Board" is stored with the board \<open>TAMIL_NADU_BOARD\<close>. The client-side filter
  of \<open>query_rag_corpus\<close> keeps its passage for the filter board \<open>TAMIL_NADU_BOARD\<close>, and
  drops it for the filter boards \<open>TamilNaduBoard\<close> and \<open>Tamil Nadu Board\<close>.
\<close>

theorem board_filter_tamil_nadu:
  "map_of tn_metadata ''board'' = Some (PStr ''TAMIL_NADU_BOARD'')
   \<and> map_option length (q_results (query_rag_corpus tn_env ''1'' ''heat'' (Some 5) None
         (Some [(''board'', PStr ''TAMIL_NADU_BOARD'')]))) = Some 1
   \<and> q_results (query_rag_corpus tn_env ''1'' ''heat'' (Some 5) None
         (Some [(''board'', PStr ''TamilNaduBoard'')])) = Some []
   \<and> q_results (query_rag_corpus tn_env ''1'' ''heat'' (Some 5) None
         (Some [(''board'', PStr ''Tamil Nadu Board'')])) = Some []"
  by code_simp

text \<open>
  C3 (idempotent normalisation). The board normalisation of \<open>create_metadata_filter\<close>
  maps \<open>cbse\<close> to \<open>CBSE\<close> and \<open>CBSE\<close> to \<open>C_B_S_E\<close>: normalising a normalised value
  changes it.
\<close>

theorem normalize_board_twice:
  "normalize_board ''cbse'' = ''CBSE''
   \<and> normalize_board (normalize_board ''cbse'') = ''C_B_S_E''
   \<and> normalize_board (normalize_board ''cbse'') \<noteq> normalize_board ''cbse''"
  by code_simp

text \<open>
  C4 (top-k cap under filtering), as the code has it. The number of candidates requested
  is \<open>2 * top_k\<close> exactly when the normalised filter is not empty, that is when the filter
  supplied has at least one field of the schema, and \<open>top_k\<close> otherwise; the answer of
  \<open>query_rag_corpus\<close> depends on the service only through a request of that size; when
  the normalised filter is not empty and \<open>top_k\<close> is at least 1, at most \<open>top_k\<close>
  results are returned; and when the normalised filter is empty the client applies no cap:
  the results are the results built for all the candidates that the service returned, in
  their order.
\<close>

theorem filtered_query_top_k:
  "rc_top_k (retrieval_config_of e k t (normalized_filter_of mf))
     = (if normalized_filter_of mf \<noteq> [] then 2 * k else k)
   \<and> (normalized_filter_of mf \<noteq> [])
     = (case mf of
          None \<Rightarrow> False
        | Some d \<Rightarrow> list_ex (\<lambda>kv. fst kv \<in> set (REQUIRED_METADATA_FIELDS @ OPTIONAL_METADATA_FIELDS)) d)
   \<and> query_rag_corpus e cid qt (Some k) vdt mf
     = query_rag_corpus
         (e\<lparr>retrieval_query := (\<lambda>p q cfg.
               if rc_top_k cfg = (if normalized_filter_of mf \<noteq> [] then 2 * k else k)
               then retrieval_query e p q cfg else Inl ''not requested'')\<rparr>)
         cid qt (Some k) vdt mf
   \<and> (normalized_filter_of mf \<noteq> [] \<longrightarrow> 1 \<le> k \<longrightarrow>
        (case q_results (query_rag_corpus e cid qt (Some k) vdt mf) of
           None \<Rightarrow> True
         | Some rs \<Rightarrow> int (length rs) \<le> k))
   \<and> (normalized_filter_of mf = [] \<longrightarrow>
        q_results (query_rag_corpus e cid qt (Some k) vdt mf)
        = (case retrieval_query e (corpus_path e cid) qt
                  (retrieval_config_of e k
                     (case vdt of None \<Rightarrow> RAG_DEFAULT_VECTOR_DISTANCE_THRESHOLD e | Some t \<Rightarrow> t) []) of
             Inl err \<Rightarrow> None
           | Inr response \<Rightarrow> Some (map build_result (response_contexts response))))"
proof -
  have request: "rc_top_k (retrieval_config_of e k t (normalized_filter_of mf))
                 = (if normalized_filter_of mf \<noteq> [] then 2 * k else k)"
    by (simp add: retrieval_config_of_def)
  let ?e' = "e\<lparr>retrieval_query := (\<lambda>p q cfg.
               if rc_top_k cfg = (if normalized_filter_of mf \<noteq> [] then 2 * k else k)
               then retrieval_query e p q cfg else Inl ''not requested'')\<rparr>"
  have cfg: "retrieval_config_of ?e' k' t' nf = retrieval_config_of e k' t' nf" for k' t' nf
    by (simp add: retrieval_config_of_def)
  have path: "corpus_path ?e' cid = corpus_path e cid"
    by (simp add: corpus_path_def)
  have suffix: "filter_suffix ?e' mf = filter_suffix e mf"
    by (simp add: filter_suffix_def split: option.splits)
  have top: "rc_top_k (retrieval_config_of e k t' (normalized_filter_of mf))
             = (if normalized_filter_of mf \<noteq> [] then 2 * k else k)" for t'
    by (simp add: retrieval_config_of_def)
  have vd: "(case vdt of None \<Rightarrow> RAG_DEFAULT_VECTOR_DISTANCE_THRESHOLD ?e' | Some t \<Rightarrow> t)
            = (case vdt of None \<Rightarrow> RAG_DEFAULT_VECTOR_DISTANCE_THRESHOLD e | Some t \<Rightarrow> t)"
    by (cases vdt) simp_all
  have same: "query_rag_corpus e cid qt (Some k) vdt mf = query_rag_corpus ?e' cid qt (Some k) vdt mf"
    unfolding query_rag_corpus_def cfg path suffix vd
    by (simp add: top Let_def)
  have cap: "case q_results (query_rag_corpus e cid qt (Some k) vdt mf) of
               None \<Rightarrow> True | Some rs \<Rightarrow> int (length rs) \<le> k"
    if "normalized_filter_of mf \<noteq> []" and "1 \<le> k"
    using that
    by (simp add: query_rag_corpus_def Let_def process_contexts_length split: sum.splits)
  show ?thesis
  proof (intro conjI impI)
    show "rc_top_k (retrieval_config_of e k t (normalized_filter_of mf))
          = (if normalized_filter_of mf \<noteq> [] then 2 * k else k)"
      by (rule request)
    show "(normalized_filter_of mf \<noteq> [])
          = (case mf of
               None \<Rightarrow> False
             | Some d \<Rightarrow> list_ex (\<lambda>kv. fst kv \<in> set (REQUIRED_METADATA_FIELDS @ OPTIONAL_METADATA_FIELDS)) d)"
      by (rule normalized_filter_of_not_Nil)
    show "query_rag_corpus e cid qt (Some k) vdt mf = query_rag_corpus ?e' cid qt (Some k) vdt mf"
      by (rule same)
    show "case q_results (query_rag_corpus e cid qt (Some k) vdt mf) of
            None \<Rightarrow> True | Some rs \<Rightarrow> int (length rs) \<le> k"
      if "normalized_filter_of mf \<noteq> []" and "1 \<le> k"
      using that by (rule cap)
    show "q_results (query_rag_corpus e cid qt (Some k) vdt mf)
        = (case retrieval_query e (corpus_path e cid) qt
                  (retrieval_config_of e k
                     (case vdt of None \<Rightarrow> RAG_DEFAULT_VECTOR_DISTANCE_THRESHOLD e | Some t \<Rightarrow> t) []) of
             Inl err \<Rightarrow> None
           | Inr response \<Rightarrow> Some (map build_result (response_contexts response)))"
      if "normalized_filter_of mf = []"
      using that
      by (simp add: query_rag_corpus_def Let_def process_contexts_no_filter split: sum.splits)
  qed
qed

theorem filtered_query_top_k_witness:
  "normalized_filter_of (Some [(''grade'', PStr ''10'')]) \<noteq> []
   \<and> (1::int) \<le> 5
   \<and> rc_top_k (retrieval_config_of grade_env 5 (1 / 2)
                 (normalized_filter_of (Some [(''grade'', PStr ''10'')]))) = 10
   \<and> (case q_results (query_rag_corpus grade_env ''1'' ''light'' (Some 5) None
                        (Some [(''grade'', PStr ''10'')])) of
         None \<Rightarrow> True | Some rs \<Rightarrow> int (length rs) \<le> 5)
   \<and> map_option length (q_results (query_rag_corpus grade_env ''1'' ''light'' (Some 5) None
         (Some [(''grade'', PStr ''10'')]))) = Some 5
   \<and> normalized_filter_of (Some [(''foo'', PStr ''bar'')]) = []
   \<and> q_results (query_rag_corpus eager_env ''1'' ''light'' (Some 5) None
         (Some [(''foo'', PStr ''bar'')])) = Some (replicate 7 (build_result grade10_ctx))"
proof -
  have h: "normalized_filter_of (Some [(''grade'', PStr ''10'')]) \<noteq> []"
    by code_simp
  note inst = filtered_query_top_k [where e = grade_env and k = 5 and t = "1 / 2"
      and mf = "Some [(''grade'', PStr ''10'')]" and cid = "''1''" and qt = "''light''"
      and vdt = None]
  have "rc_top_k (retrieval_config_of grade_env 5 (1 / 2)
                 (normalized_filter_of (Some [(''grade'', PStr ''10'')])))
      = (if normalized_filter_of (Some [(''grade'', PStr ''10'')]) \<noteq> [] then 2 * 5 else 5)"
    by (rule inst [THEN conjunct1])
  with h have a: "rc_top_k (retrieval_config_of grade_env 5 (1 / 2)
                 (normalized_filter_of (Some [(''grade'', PStr ''10'')]))) = 10"
    by simp
  have b: "case q_results (query_rag_corpus grade_env ''1'' ''light'' (Some 5) None
                        (Some [(''grade'', PStr ''10'')])) of
         None \<Rightarrow> True | Some rs \<Rightarrow> int (length rs) \<le> 5"
    by (rule inst [THEN conjunct2, THEN conjunct2, THEN conjunct2, THEN conjunct1, rule_format,
          OF h]) simp
  have c: "map_option length (q_results (query_rag_corpus grade_env ''1'' ''light'' (Some 5) None
         (Some [(''grade'', PStr ''10'')]))) = Some 5"
    by code_simp
  have h': "normalized_filter_of (Some [(''foo'', PStr ''bar'')]) = []"
    by code_simp
  note inst' = filtered_query_top_k [where e = eager_env and k = 5 and t = "1 / 2"
      and mf = "Some [(''foo'', PStr ''bar'')]" and cid = "''1''" and qt = "''light''"
      and vdt = None]
  have "q_results (query_rag_corpus eager_env ''1'' ''light'' (Some 5) None
          (Some [(''foo'', PStr ''bar'')]))
        = (case retrieval_query eager_env (corpus_path eager_env ''1'') ''light''
                  (retrieval_config_of eager_env 5
                     (case None of None \<Rightarrow> RAG_DEFAULT_VECTOR_DISTANCE_THRESHOLD eager_env
                      | Some t \<Rightarrow> t) []) of
             Inl err \<Rightarrow> None
           | Inr response \<Rightarrow> Some (map build_result (response_contexts response)))"
    by (rule inst' [THEN conjunct2, THEN conjunct2, THEN conjunct2, THEN conjunct2, rule_format,
          OF h'])
  also have "\<dots> = Some (replicate 7 (build_result grade10_ctx))"
    by (simp add: eager_env_def response_contexts_def)
  finally have d: "q_results (query_rag_corpus eager_env ''1'' ''light'' (Some 5) None
          (Some [(''foo'', PStr ''bar'')])) = Some (replicate 7 (build_result grade10_ctx))" .
  from h a b c h' d show ?thesis by simp
qed

theorem filtered_query_claim_fails:
  "filter_given (Some [(''foo'', PStr ''bar'')])
   \<and> rc_top_k (retrieval_config_of grade_env 5 (1 / 2)
                 (normalized_filter_of (Some [(''foo'', PStr ''bar'')]))) = 5
   \<and> rc_top_k (retrieval_config_of grade_env 5 (1 / 2)
                 (normalized_filter_of (Some [(''foo'', PStr ''bar'')]))) \<noteq> 2 * 5
   \<and> filter_given (Some [(''grade'', PStr ''10'')])
   \<and> map_option length (q_results (query_rag_corpus eager_env ''1'' ''light'' (Some 0) None
         (Some [(''grade'', PStr ''10'')]))) = Some 1
   \<and> map_option (\<lambda>rs. int (length rs) \<le> 0)
         (q_results (query_rag_corpus eager_env ''1'' ''light'' (Some 0) None
            (Some [(''grade'', PStr ''10'')]))) = Some False"
  by code_simp

text \<open>
  C5 (empty-corpus warning), as the code has it. When the listing succeeds and there is
  no corpus, \<open>search_all_corpora\<close> returns the status \<open>warning\<close> with the message
  "No corpora found to search in", no error message, and no \<open>results\<close> and no \<open>count\<close>
  field.
\<close>

theorem no_corpora_warning:
  assumes "list_corpora e = Inr []"
  shows "s_status (search_all_corpora e qt k t mf) = ''warning''
       \<and> s_message (search_all_corpora e qt k t mf) = ''No corpora found to search in''
       \<and> s_error_message (search_all_corpora e qt k t mf) = None
       \<and> s_results (search_all_corpora e qt k t mf) = None
       \<and> s_count (search_all_corpora e qt k t mf) = None"
  using assms
  by (simp add: search_all_corpora_def search_all_with_def list_rag_corpora_def search_warning_def
      Let_def)

theorem no_corpora_warning_witness:
  "list_corpora empty_env = Inr []
   \<and> s_status (search_all_corpora empty_env ''plants'' None None None) = ''warning''
   \<and> s_results (search_all_corpora empty_env ''plants'' None None None) = None"
proof -
  have h: "list_corpora empty_env = Inr []"
    by (simp add: empty_env_def)
  from no_corpora_warning [OF h, of "''plants''" None None None] h show ?thesis
    by simp
qed

theorem no_corpora_results_absent:
  "s_results (search_all_corpora empty_env ''plants'' None None None) \<noteq> Some []"
  by code_simp

text \<open>
  C6 (partial failure isolation). When the listing succeeds with at least one corpus,
  \<open>search_all_corpora\<close> returns the status \<open>success\<close> whatever the per-corpus queries
  answer. Its merged results are the sorted concatenation of the annotated results of
  the corpora whose query returned the status \<open>success\<close>, so every result carries the id
  and name of such a corpus; \<open>searched_corpora\<close> lists the names of the corpora whose
  query succeeded and kept at least one result. A corpus whose query failed adds nothing
  to either: its name is not in \<open>searched_corpora\<close> unless a corpus that succeeded has
  the same display name.
\<close>

theorem partial_failure_isolation:
  assumes "list_corpora e = Inr raws" and "raws \<noteq> []"
  shows "s_status (search_all_corpora e qt k t mf) = ''success''
       \<and> s_results (search_all_corpora e qt k t mf)
         = Some (sort_results (concat (map (\<lambda>c. annotated_results c (corpus_query e qt k t mf c))
                   (filter (\<lambda>c. q_status (corpus_query e qt k t mf c) = ''success'')
                      (map corpus_of_raw raws)))))
       \<and> s_searched_corpora (search_all_corpora e qt k t mf)
         = Some (map c_display_name
                   (filter (\<lambda>c. q_status (corpus_query e qt k t mf c) = ''success''
                                 \<and> annotated_results c (corpus_query e qt k t mf c) \<noteq> [])
                      (map corpus_of_raw raws)))
       \<and> (\<forall>r \<in> set (case s_results (search_all_corpora e qt k t mf) of None \<Rightarrow> [] | Some rs \<Rightarrow> rs).
            \<exists>c \<in> set (map corpus_of_raw raws).
              q_status (corpus_query e qt k t mf c) = ''success''
              \<and> r_corpus_id r = Some (c_id c) \<and> r_corpus_name r = Some (c_display_name c))
       \<and> (\<forall>c \<in> set (map corpus_of_raw raws).
            q_status (corpus_query e qt k t mf c) \<noteq> ''success'' \<longrightarrow>
            (\<forall>c' \<in> set (map corpus_of_raw raws).
               q_status (corpus_query e qt k t mf c') = ''success'' \<longrightarrow>
               c_display_name c' \<noteq> c_display_name c) \<longrightarrow>
            c_display_name c \<notin> set (case s_searched_corpora (search_all_corpora e qt k t mf) of
                                        None \<Rightarrow> [] | Some ns \<Rightarrow> ns))"
proof -
  let ?q = "corpus_query e qt k t mf"
  let ?cs = "map corpus_of_raw raws"
  let ?R = "search_all_corpora e qt k t mf"
  let ?merged = "concat (map (\<lambda>c. annotated_results c (?q c))
                   (filter (\<lambda>c. q_status (?q c) = ''success'') ?cs))"
  from search_all_with_success [OF assms, of ?q qt mf]
  have status: "s_status ?R = ''success''"
    and results: "s_results ?R = Some (sort_results ?merged)"
    and searched: "s_searched_corpora ?R
         = Some (map c_display_name
                   (filter (\<lambda>c. q_status (?q c) = ''success'' \<and> annotated_results c (?q c) \<noteq> []) ?cs))"
    by (auto simp: search_all_corpora_def Let_def search_loop_all_results search_loop_searched)
  have origin: "\<exists>c \<in> set ?cs. q_status (?q c) = ''success''
                  \<and> r_corpus_id r = Some (c_id c) \<and> r_corpus_name r = Some (c_display_name c)"
    if "r \<in> set (sort_results ?merged)" for r
  proof -
    from that have "r \<in> set ?merged" by (simp add: sort_results_def)
    then obtain c where c: "c \<in> set ?cs" "q_status (?q c) = ''success''"
      and r: "r \<in> set (annotated_results c (?q c))"
      by auto
    from r have "r_corpus_id r = Some (c_id c) \<and> r_corpus_name r = Some (c_display_name c)"
      by (rule annotated_results_corpus)
    with c show ?thesis by blast
  qed
  have absent: "c_display_name c \<notin> set (case s_searched_corpora ?R of None \<Rightarrow> [] | Some ns \<Rightarrow> ns)"
    if "c \<in> set ?cs" and "q_status (?q c) \<noteq> ''success''"
      and "\<forall>c' \<in> set ?cs. q_status (?q c') = ''success'' \<longrightarrow> c_display_name c' \<noteq> c_display_name c"
    for c
    using that by (auto simp: searched)
  from status results searched origin absent show ?thesis by simp
qed

theorem partial_failure_isolation_witness:
  "list_corpora abc_env = Inr abc_corpora
   \<and> abc_corpora \<noteq> []
   \<and> map (\<lambda>c. q_status (corpus_query abc_env ''plants'' None None None c))
         (map corpus_of_raw abc_corpora) = [''success'', ''error'', ''success'']
   \<and> s_status (search_all_corpora abc_env ''plants'' None None None) = ''success''
   \<and> s_searched_corpora (search_all_corpora abc_env ''plants'' None None None) = Some [''A'', ''C'']
   \<and> map_option (map r_corpus_name) (s_results (search_all_corpora abc_env ''plants'' None None None))
       = Some [Some ''A'', Some ''C'']"
proof -
  have h1: "list_corpora abc_env = Inr abc_corpora"
    by (simp add: abc_env_def)
  have h2: "abc_corpora \<noteq> []"
    by (simp add: abc_corpora_def)
  from partial_failure_isolation [OF h1 h2, of "''plants''" None None None]
  have a: "s_status (search_all_corpora abc_env ''plants'' None None None) = ''success''"
    by (elim conjE)
  have b: "map (\<lambda>c. q_status (corpus_query abc_env ''plants'' None None None c))
         (map corpus_of_raw abc_corpora) = [''success'', ''error'', ''success'']"
    by code_simp
  have c: "s_searched_corpora (search_all_corpora abc_env ''plants'' None None None) = Some [''A'', ''C'']"
    by code_simp
  have d: "map_option (map r_corpus_name) (s_results (search_all_corpora abc_env ''plants'' None None None))
       = Some [Some ''A'', Some ''C'']"
    by code_simp
  from h1 h2 a b c d show ?thesis by simp
qed

text \<open>
  C7 (page extraction priority). The page number of the result built for a context is
  the first success among the structured fields (of the context or of its metadata), the
  \<open>#page=N\<close> fragment of the source URI and the patterns in the text, in this order, and
  a result carries at most this one page number. Every result kept by the loop of
  \<open>query_rag_corpus\<close> is built from one of the contexts in this way. A page attribute of
  the context that is not \<open>None\<close>, a truthy page number in its \<open>__dict__\<close> and a truthy
  page number in its metadata each win over the URI and the text. A context with no
  structured page field and the source URI \<open>gs://b/f.pdf#page=12\<close> gets the page number
  12, whatever its text; with no fragment in the URI, the text "... page 45 ..." gives 45.
\<close>

theorem page_number_priority:
  "r_page_number (build_result c) = spec_page_number c
   \<and> (\<forall>r \<in> set (process_contexts nf k cs []).
        \<exists>c' \<in> set cs. r = build_result c' \<and> r_page_number r = spec_page_number c')
   \<and> (map_of (ctx_attrs c) ''page_number'' = Some v \<longrightarrow> v \<noteq> PNone \<longrightarrow>
        r_page_number (build_result c) = Some v)
   \<and> (ctx_attrs c = [] \<longrightarrow> ctx_dict c = Some d \<longrightarrow> truthy (dict_get d ''page_number'') \<longrightarrow>
        r_page_number (build_result c) = Some (dict_get d ''page_number''))
   \<and> (ctx_attrs c = [] \<longrightarrow> ctx_dict c = None \<longrightarrow> ctx_metadata c = Some (MetaDict md) \<longrightarrow>
        truthy (dict_get md ''page_number'') \<longrightarrow>
        r_page_number (build_result c) = Some (dict_get md ''page_number''))
   \<and> (structured_field c = None \<longrightarrow> ctx_source_uri c = Some ''gs://b/f.pdf#page=12'' \<longrightarrow>
        r_page_number (build_result c) = Some (PInt 12))
   \<and> (structured_field c = None \<longrightarrow> ctx_source_uri c = Some ''gs://b/f.pdf'' \<longrightarrow>
        ctx_text c = Some ''As shown on page 45, the cell divides.'' \<longrightarrow>
        r_page_number (build_result c) = Some (PInt 45))"
proof (intro conjI impI ballI)
  show "r_page_number (build_result c) = spec_page_number c"
    by (rule build_result_page)
  show "\<exists>c' \<in> set cs. r = build_result c' \<and> r_page_number r = spec_page_number c'"
    if "r \<in> set (process_contexts nf k cs [])" for r
    using process_contexts_from [OF that] by (auto simp: build_result_page)
  show "r_page_number (build_result c) = Some v"
    if "map_of (ctx_attrs c) ''page_number'' = Some v" and "v \<noteq> PNone"
    using that
    by (simp add: build_result_page spec_page_number_def structured_field_def attribute_field_def
        dict_get_def not_none_def)
  show "r_page_number (build_result c) = Some (dict_get d ''page_number'')"
    if "ctx_attrs c = []" and "ctx_dict c = Some d" and "truthy (dict_get d ''page_number'')"
  proof -
    from that(3) have "dict_get d ''page_number'' \<noteq> PNone" by auto
    with that show ?thesis
      by (simp add: build_result_page spec_page_number_def structured_field_def
          attribute_field_def dict_field_def not_none_def)
  qed
  show "r_page_number (build_result c) = Some (dict_get md ''page_number'')"
    if "ctx_attrs c = []" and "ctx_dict c = None" and "ctx_metadata c = Some (MetaDict md)"
      and "truthy (dict_get md ''page_number'')"
  proof -
    from that(4) have v: "dict_get md ''page_number'' \<noteq> PNone" by auto
    then have "md \<noteq> []" by (auto simp: dict_get_def)
    with that v show ?thesis
      by (simp add: build_result_page spec_page_number_def structured_field_def
          attribute_field_def dict_field_def metadata_field_def metadata_keys_def not_none_def)
  qed
  show "r_page_number (build_result c) = Some (PInt 12)"
    if "structured_field c = None" and "ctx_source_uri c = Some ''gs://b/f.pdf#page=12''"
    using that by (simp add: build_result_page spec_page_number_def uri_fragment_def uri_page_12)
  show "r_page_number (build_result c) = Some (PInt 45)"
    if "structured_field c = None" and "ctx_source_uri c = Some ''gs://b/f.pdf''"
      and "ctx_text c = Some ''As shown on page 45, the cell divides.''"
    using that
    by (simp add: build_result_page spec_page_number_def uri_fragment_def text_pattern_def
        uri_page_plain text_page_45)
qed

theorem page_number_priority_witness:
  "map_of (ctx_attrs unit3_ctx) ''page_number'' = Some (PInt 7)
   \<and> r_page_number (build_result unit3_ctx) = Some (PInt 7)
   \<and> ctx_attrs dict_page_ctx = []
   \<and> ctx_dict dict_page_ctx = Some [(''page_number'', PInt 9)]
   \<and> r_page_number (build_result dict_page_ctx) = Some (PInt 9)
   \<and> ctx_dict metadata_page_ctx = None
   \<and> ctx_metadata metadata_page_ctx = Some (MetaDict [(''page_number'', PInt 3)])
   \<and> uri_fragment metadata_page_ctx = Some (PInt 12)
   \<and> r_page_number (build_result metadata_page_ctx) = Some (PInt 3)
   \<and> structured_field page_ctx = None
   \<and> ctx_source_uri page_ctx = Some ''gs://b/f.pdf#page=12''
   \<and> text_pattern page_ctx = Some (PInt 45)
   \<and> r_page_number (build_result page_ctx) = Some (PInt 12)
   \<and> structured_field text_page_ctx = None
   \<and> r_page_number (build_result text_page_ctx) = Some (PInt 45)
   \<and> uri_page (''gs://b/f.pdf#page='' @ [CHR 0x1C] @ ''12'') = None"
proof -
  note conj3 = page_number_priority [THEN conjunct2, THEN conjunct2, THEN conjunct1, rule_format]
  note conj4 = page_number_priority [THEN conjunct2, THEN conjunct2, THEN conjunct2,
      THEN conjunct1, rule_format]
  note conj5 = page_number_priority [THEN conjunct2, THEN conjunct2, THEN conjunct2,
      THEN conjunct2, THEN conjunct1, rule_format]
  note conj6 = page_number_priority [THEN conjunct2, THEN conjunct2, THEN conjunct2,
      THEN conjunct2, THEN conjunct2, THEN conjunct1, rule_format]
  note conj7 = page_number_priority [THEN conjunct2, THEN conjunct2, THEN conjunct2,
      THEN conjunct2, THEN conjunct2, THEN conjunct2, rule_format]
  have a1: "map_of (ctx_attrs unit3_ctx) ''page_number'' = Some (PInt 7)"
    by (simp add: unit3_ctx_def)
  have a2: "r_page_number (build_result unit3_ctx) = Some (PInt 7)"
    by (rule conj3 [OF a1]) simp
  have d1: "ctx_attrs dict_page_ctx = []"
    by (simp add: dict_page_ctx_def)
  have d2: "ctx_dict dict_page_ctx = Some [(''page_number'', PInt 9)]"
    by (simp add: dict_page_ctx_def)
  have d3: "truthy (dict_get [(''page_number'', PInt 9)] ''page_number'')"
    by (simp add: dict_get_def)
  have "r_page_number (build_result dict_page_ctx)
        = Some (dict_get [(''page_number'', PInt 9)] ''page_number'')"
    by (rule conj4 [OF d1 d2 d3])
  then have d4: "r_page_number (build_result dict_page_ctx) = Some (PInt 9)"
    by (simp add: dict_get_def)
  have m1: "ctx_attrs metadata_page_ctx = []"
    by (simp add: metadata_page_ctx_def)
  have m2: "ctx_dict metadata_page_ctx = None"
    by (simp add: metadata_page_ctx_def)
  have m3: "ctx_metadata metadata_page_ctx = Some (MetaDict [(''page_number'', PInt 3)])"
    by (simp add: metadata_page_ctx_def)
  have m4: "truthy (dict_get [(''page_number'', PInt 3)] ''page_number'')"
    by (simp add: dict_get_def)
  have "r_page_number (build_result metadata_page_ctx)
        = Some (dict_get [(''page_number'', PInt 3)] ''page_number'')"
    by (rule conj5 [OF m1 m2 m3 m4])
  then have m5: "r_page_number (build_result metadata_page_ctx) = Some (PInt 3)"
    by (simp add: dict_get_def)
  have m6: "uri_fragment metadata_page_ctx = Some (PInt 12)"
    by code_simp
  have p1: "structured_field page_ctx = None"
    by code_simp
  have p2: "ctx_source_uri page_ctx = Some ''gs://b/f.pdf#page=12''"
    by (simp add: page_ctx_def)
  have p3: "text_pattern page_ctx = Some (PInt 45)"
    by code_simp
  have p4: "r_page_number (build_result page_ctx) = Some (PInt 12)"
    by (rule conj6 [OF p1 p2])
  have t1: "structured_field text_page_ctx = None"
    by code_simp
  have t2: "ctx_source_uri text_page_ctx = Some ''gs://b/f.pdf''"
    by (simp add: text_page_ctx_def)
  have t3: "ctx_text text_page_ctx = Some ''As shown on page 45, the cell divides.''"
    by (simp add: text_page_ctx_def)
  have t4: "r_page_number (build_result text_page_ctx) = Some (PInt 45)"
    by (rule conj7 [OF t1 t2 t3])
  have s: "uri_page (''gs://b/f.pdf#page='' @ [CHR 0x1C] @ ''12'') = None"
    by code_simp
  from a1 a2 d1 d2 d4 m2 m3 m6 m5 p1 p2 p3 p4 t1 t4 s show ?thesis
    by (intro conjI)
qed

text \<open>
  C8 (required-field gate). Validating a tag set that has only the subject "Math" gives
  \<open>valid = False\<close>, exactly the two errors for the missing board and grade, and no
  normalised mapping. For every input, the normalised mapping is present exactly when
  the list of errors is empty, and \<open>valid\<close> says the same.
\<close>

theorem required_field_gate:
  "valid (validate_metadata [(''subject'', PStr ''Math'')] strict) = False
   \<and> errors (validate_metadata [(''subject'', PStr ''Math'')] strict)
     = [''Missing required field: '' @ quoted ''board'', ''Missing required field: '' @ quoted ''grade'']
   \<and> normalized (validate_metadata [(''subject'', PStr ''Math'')] strict) = None
   \<and> (normalized (validate_metadata metadata strict') \<noteq> None)
     = (errors (validate_metadata metadata strict') = [])
   \<and> valid (validate_metadata metadata strict')
     = (errors (validate_metadata metadata strict') = [])"
proof -
  have example: "validate_metadata [(''subject'', PStr ''Math'')] strict =
     \<lparr>valid = False,
      errors = [''Missing required field: '' @ quoted ''board'',
                ''Missing required field: '' @ quoted ''grade''],
      warnings = [], normalized = None\<rparr>"
    by (cases strict) (simp_all, code_simp+)
  have general: "(normalized (validate_metadata metadata strict') \<noteq> None)
       = (errors (validate_metadata metadata strict') = [])
     \<and> valid (validate_metadata metadata strict')
       = (errors (validate_metadata metadata strict') = [])"
    by (simp add: validate_metadata_def Let_def)
  from general show ?thesis by (simp add: example)
qed



text \<open>
  C10 (an empty corpus looks like a failed one). Call a corpus kept when its query
  returned the status \<open>success\<close> with at least one result. When the listing succeeds with
  at least one corpus, \<open>searched_corpora\<close> is the list of the display names of the kept
  corpora, the keys of the per-corpus result map are these names and each of its entries
  is the entry written for a kept corpus, and \<open>citations_summary\<close> has one line per name
  in \<open>searched_corpora\<close>, built from the map's entry for that name. So a corpus that is
  not kept, whether its query failed or succeeded with zero results, has no entry of its
  own in any of the three: its name is in none of them unless a kept corpus has the same
  display name. Moreover, take two services that list the same corpora and whose answers
  differ only on corpora where the first succeeds with zero results and the second
  fails: \<open>search_all_corpora\<close> returns the same \<open>searched_corpora\<close>, per-corpus result
  map, \<open>citations_summary\<close>, status and merged results for both.
\<close>

theorem empty_corpus_like_failed_corpus:
  "(list_corpora e = Inr raws \<longrightarrow> raws \<noteq> [] \<longrightarrow>
      (\<exists>m ls.
         s_searched_corpora (search_all_corpora e qt k t mf)
           = Some (map c_display_name
                     (filter (\<lambda>c. q_status (corpus_query e qt k t mf c) = ''success''
                                   \<and> q_results (corpus_query e qt k t mf c) \<noteq> None
                                   \<and> q_results (corpus_query e qt k t mf c) \<noteq> Some [])
                        (map corpus_of_raw raws)))
         \<and> s_corpus_results (search_all_corpora e qt k t mf) = Some m
         \<and> s_citations_summary (search_all_corpora e qt k t mf) = Some ls
         \<and> fst ` set m
           = c_display_name `
               set (filter (\<lambda>c. q_status (corpus_query e qt k t mf c) = ''success''
                                 \<and> q_results (corpus_query e qt k t mf c) \<noteq> None
                                 \<and> q_results (corpus_query e qt k t mf c) \<noteq> Some [])
                      (map corpus_of_raw raws))
         \<and> (\<forall>nd \<in> set m. \<exists>c \<in> set (map corpus_of_raw raws).
               q_status (corpus_query e qt k t mf c) = ''success''
               \<and> q_results (corpus_query e qt k t mf c) \<noteq> None
               \<and> q_results (corpus_query e qt k t mf c) \<noteq> Some []
               \<and> nd = (c_display_name c,
                       \<lparr>ce_corpus_id = c_id c, ce_corpus_name = c_display_name c,
                        ce_results = annotated_results c (corpus_query e qt k t mf c),
                        ce_count = length (annotated_results c (corpus_query e qt k t mf c))\<rparr>))
         \<and> list_all2 (\<lambda>n l. \<exists>d. map_of m n = Some d \<and> l = summary_line n d)
             (map c_display_name
                (filter (\<lambda>c. q_status (corpus_query e qt k t mf c) = ''success''
                              \<and> q_results (corpus_query e qt k t mf c) \<noteq> None
                              \<and> q_results (corpus_query e qt k t mf c) \<noteq> Some [])
                   (map corpus_of_raw raws)))
             ls
         \<and> (\<forall>c \<in> set (map corpus_of_raw raws).
               (q_status (corpus_query e qt k t mf c) \<noteq> ''success''
                \<or> q_results (corpus_query e qt k t mf c) = None
                \<or> q_results (corpus_query e qt k t mf c) = Some []) \<longrightarrow>
               (\<forall>c' \<in> set (map corpus_of_raw raws).
                  q_status (corpus_query e qt k t mf c') = ''success''
                  \<and> q_results (corpus_query e qt k t mf c') \<noteq> None
                  \<and> q_results (corpus_query e qt k t mf c') \<noteq> Some [] \<longrightarrow>
                  c_display_name c' \<noteq> c_display_name c) \<longrightarrow>
               c_display_name c \<notin> set (case s_searched_corpora (search_all_corpora e qt k t mf) of
                                           None \<Rightarrow> [] | Some ns \<Rightarrow> ns)
               \<and> c_display_name c \<notin> fst ` set m)))
   \<and> (list_corpora e = Inr raws \<longrightarrow> list_corpora e' = Inr raws \<longrightarrow>
       (\<forall>c \<in> set (map corpus_of_raw raws).
           corpus_query e' qt k t mf c = corpus_query e qt k t mf c
           \<or> (q_status (corpus_query e qt k t mf c) = ''success''
              \<and> q_results (corpus_query e qt k t mf c) = Some []
              \<and> q_status (corpus_query e' qt k t mf c) \<noteq> ''success'')) \<longrightarrow>
       s_searched_corpora (search_all_corpora e' qt k t mf)
         = s_searched_corpora (search_all_corpora e qt k t mf)
       \<and> s_corpus_results (search_all_corpora e' qt k t mf)
         = s_corpus_results (search_all_corpora e qt k t mf)
       \<and> s_citations_summary (search_all_corpora e' qt k t mf)
         = s_citations_summary (search_all_corpora e qt k t mf)
       \<and> s_status (search_all_corpora e' qt k t mf) = s_status (search_all_corpora e qt k t mf)
       \<and> s_results (search_all_corpora e' qt k t mf) = s_results (search_all_corpora e qt k t mf))"
proof (intro conjI impI)
  let ?q = "corpus_query e qt k t mf"
  let ?cs = "map corpus_of_raw raws"
  let ?R = "search_all_corpora e qt k t mf"
  let ?kept = "\<lambda>c. q_status (?q c) = ''success'' \<and> q_results (?q c) \<noteq> None
                   \<and> q_results (?q c) \<noteq> Some []"
  let ?st = "search_loop ?q ?cs \<lparr>all_results = [], corpus_results_map = [], searched_corpora = []\<rparr>"
  assume listed: "list_corpora e = Inr raws" and some: "raws \<noteq> []"
  from search_all_with_fields [OF listed some, of ?q qt mf]
  obtain ls where summary: "citations_summary_of (corpus_results_map ?st) (searched_corpora ?st) = Inr ls"
    and s_ls: "s_citations_summary ?R = Some ls"
    and s_m: "s_corpus_results ?R = Some (corpus_results_map ?st)"
    and s_searched: "s_searched_corpora ?R = Some (searched_corpora ?st)"
    by (auto simp: search_all_corpora_def)
  have searched: "searched_corpora ?st = map c_display_name (filter ?kept ?cs)"
    by (simp add: search_loop_searched annotated_results_Nil)
  have keys: "fst ` set (corpus_results_map ?st) = c_display_name ` set (filter ?kept ?cs)"
    by (simp add: search_loop_map_keys annotated_results_Nil)
  have entries: "\<exists>c \<in> set ?cs. ?kept c
               \<and> nd = (c_display_name c,
                       \<lparr>ce_corpus_id = c_id c, ce_corpus_name = c_display_name c,
                        ce_results = annotated_results c (?q c),
                        ce_count = length (annotated_results c (?q c))\<rparr>)"
    if "nd \<in> set (corpus_results_map ?st)" for nd
    using search_loop_map_entries [OF that] by (simp add: annotated_results_Nil)
  have lines: "list_all2 (\<lambda>n l. \<exists>d. map_of (corpus_results_map ?st) n = Some d \<and> l = summary_line n d)
                 (map c_display_name (filter ?kept ?cs)) ls"
    using citations_summary_lines [OF summary] by (simp only: searched)
  have omitted: "c_display_name c \<notin> set (searched_corpora ?st)
                 \<and> c_display_name c \<notin> fst ` set (corpus_results_map ?st)"
    if "c \<in> set ?cs" and "\<forall>c' \<in> set ?cs. ?kept c' \<longrightarrow> c_display_name c' \<noteq> c_display_name c"
    for c
    using that by (auto simp: searched keys)
  show "\<exists>m ls.
         s_searched_corpora ?R = Some (map c_display_name (filter ?kept ?cs))
         \<and> s_corpus_results ?R = Some m
         \<and> s_citations_summary ?R = Some ls
         \<and> fst ` set m = c_display_name ` set (filter ?kept ?cs)
         \<and> (\<forall>nd \<in> set m. \<exists>c \<in> set ?cs.
               q_status (?q c) = ''success'' \<and> q_results (?q c) \<noteq> None
               \<and> q_results (?q c) \<noteq> Some []
               \<and> nd = (c_display_name c,
                       \<lparr>ce_corpus_id = c_id c, ce_corpus_name = c_display_name c,
                        ce_results = annotated_results c (?q c),
                        ce_count = length (annotated_results c (?q c))\<rparr>))
         \<and> list_all2 (\<lambda>n l. \<exists>d. map_of m n = Some d \<and> l = summary_line n d)
             (map c_display_name (filter ?kept ?cs)) ls
         \<and> (\<forall>c \<in> set ?cs.
               (q_status (?q c) \<noteq> ''success'' \<or> q_results (?q c) = None
                \<or> q_results (?q c) = Some []) \<longrightarrow>
               (\<forall>c' \<in> set ?cs.
                  q_status (?q c') = ''success'' \<and> q_results (?q c') \<noteq> None
                  \<and> q_results (?q c') \<noteq> Some [] \<longrightarrow>
                  c_display_name c' \<noteq> c_display_name c) \<longrightarrow>
               c_display_name c \<notin> set (case s_searched_corpora ?R of None \<Rightarrow> [] | Some ns \<Rightarrow> ns)
               \<and> c_display_name c \<notin> fst ` set m)"
  proof (intro exI [of _ "corpus_results_map ?st"] exI [of _ ls] conjI ballI impI)
    show "s_searched_corpora ?R = Some (map c_display_name (filter ?kept ?cs))"
      by (simp only: s_searched searched)
    show "s_corpus_results ?R = Some (corpus_results_map ?st)"
      by (rule s_m)
    show "s_citations_summary ?R = Some ls"
      by (rule s_ls)
    show "fst ` set (corpus_results_map ?st) = c_display_name ` set (filter ?kept ?cs)"
      by (rule keys)
    show "\<exists>c \<in> set ?cs.
               q_status (?q c) = ''success'' \<and> q_results (?q c) \<noteq> None
               \<and> q_results (?q c) \<noteq> Some []
               \<and> nd = (c_display_name c,
                       \<lparr>ce_corpus_id = c_id c, ce_corpus_name = c_display_name c,
                        ce_results = annotated_results c (?q c),
                        ce_count = length (annotated_results c (?q c))\<rparr>)"
      if "nd \<in> set (corpus_results_map ?st)" for nd
      using entries [OF that] by simp
    show "list_all2 (\<lambda>n l. \<exists>d. map_of (corpus_results_map ?st) n = Some d \<and> l = summary_line n d)
             (map c_display_name (filter ?kept ?cs)) ls"
      by (rule lines)
  next
    fix c
    assume c: "c \<in> set ?cs"
      and alone: "\<forall>c' \<in> set ?cs.
                  q_status (?q c') = ''success'' \<and> q_results (?q c') \<noteq> None
                  \<and> q_results (?q c') \<noteq> Some [] \<longrightarrow>
                  c_display_name c' \<noteq> c_display_name c"
    from omitted [OF c alone]
    show "c_display_name c \<notin> set (case s_searched_corpora ?R of None \<Rightarrow> [] | Some ns \<Rightarrow> ns)"
      by (simp add: s_searched)
    from omitted [OF c alone]
    show "c_display_name c \<notin> fst ` set (corpus_results_map ?st)"
      by simp
  qed
next
  assume listed: "list_corpora e = Inr raws" and listed': "list_corpora e' = Inr raws"
    and differ: "\<forall>c \<in> set (map corpus_of_raw raws).
           corpus_query e' qt k t mf c = corpus_query e qt k t mf c
           \<or> (q_status (corpus_query e qt k t mf c) = ''success''
              \<and> q_results (corpus_query e qt k t mf c) = Some []
              \<and> q_status (corpus_query e' qt k t mf c) \<noteq> ''success'')"
  have loop: "search_loop (corpus_query e' qt k t mf) (map corpus_of_raw raws) st
              = search_loop (corpus_query e qt k t mf) (map corpus_of_raw raws) st" for st
    using differ by (rule search_loop_eq)
  from listed listed'
  have same: "s_searched_corpora (search_all_corpora e' qt k t mf)
         = s_searched_corpora (search_all_corpora e qt k t mf)
       \<and> s_corpus_results (search_all_corpora e' qt k t mf)
         = s_corpus_results (search_all_corpora e qt k t mf)
       \<and> s_citations_summary (search_all_corpora e' qt k t mf)
         = s_citations_summary (search_all_corpora e qt k t mf)
       \<and> s_status (search_all_corpora e' qt k t mf) = s_status (search_all_corpora e qt k t mf)
       \<and> s_results (search_all_corpora e' qt k t mf) = s_results (search_all_corpora e qt k t mf)"
    by (simp add: search_all_corpora_def search_all_with_def list_rag_corpora_ok loop Let_def
        search_warning_def search_error_def split: sum.splits)
  from same show "s_searched_corpora (search_all_corpora e' qt k t mf)
         = s_searched_corpora (search_all_corpora e qt k t mf)" by (elim conjE)
  from same show "s_corpus_results (search_all_corpora e' qt k t mf)
         = s_corpus_results (search_all_corpora e qt k t mf)" by (elim conjE)
  from same show "s_citations_summary (search_all_corpora e' qt k t mf)
         = s_citations_summary (search_all_corpora e qt k t mf)" by (elim conjE)
  from same show "s_status (search_all_corpora e' qt k t mf)
         = s_status (search_all_corpora e qt k t mf)" by (elim conjE)
  from same show "s_results (search_all_corpora e' qt k t mf)
         = s_results (search_all_corpora e qt k t mf)" by (elim conjE)
qed

theorem empty_corpus_like_failed_corpus_witness:
  "list_corpora quiet_env = Inr abc_corpora
   \<and> abc_corpora \<noteq> []
   \<and> list_corpora abc_env = Inr abc_corpora
   \<and> map (\<lambda>c. q_status (corpus_query quiet_env ''plants'' None None None c))
         (map corpus_of_raw abc_corpora) = [''success'', ''success'', ''success'']
   \<and> map (\<lambda>c. q_results (corpus_query quiet_env ''plants'' None None None c) = Some [])
         (map corpus_of_raw abc_corpora) = [False, True, False]
   \<and> map (\<lambda>c. q_status (corpus_query abc_env ''plants'' None None None c))
         (map corpus_of_raw abc_corpora) = [''success'', ''error'', ''success'']
   \<and> s_searched_corpora (search_all_corpora quiet_env ''plants'' None None None) = Some [''A'', ''C'']
   \<and> map_option (map fst) (s_corpus_results (search_all_corpora quiet_env ''plants'' None None None))
     = Some [''A'', ''C'']
   \<and> s_citations_summary (search_all_corpora quiet_env ''plants'' None None None)
     = Some [''A (1): 1 results'', ''C (3): 1 results'']
   \<and> s_searched_corpora (search_all_corpora abc_env ''plants'' None None None)
     = s_searched_corpora (search_all_corpora quiet_env ''plants'' None None None)
   \<and> s_corpus_results (search_all_corpora abc_env ''plants'' None None None)
     = s_corpus_results (search_all_corpora quiet_env ''plants'' None None None)
   \<and> s_citations_summary (search_all_corpora abc_env ''plants'' None None None)
     = s_citations_summary (search_all_corpora quiet_env ''plants'' None None None)"
proof -
  have h1: "list_corpora quiet_env = Inr abc_corpora"
    by (simp add: quiet_env_def)
  have h2: "abc_corpora \<noteq> []"
    by (simp add: abc_corpora_def)
  have h3: "list_corpora abc_env = Inr abc_corpora"
    by (simp add: abc_env_def)
  note inst = empty_corpus_like_failed_corpus [where e = quiet_env and e' = abc_env
      and raws = abc_corpora and qt = "''plants''" and k = None and t = None and mf = None]
  from inst [THEN conjunct1, rule_format, OF h1 h2]
  have "s_searched_corpora (search_all_corpora quiet_env ''plants'' None None None)
        = Some (map c_display_name
                  (filter (\<lambda>c. q_status (corpus_query quiet_env ''plants'' None None None c) = ''success''
                                \<and> q_results (corpus_query quiet_env ''plants'' None None None c) \<noteq> None
                                \<and> q_results (corpus_query quiet_env ''plants'' None None None c) \<noteq> Some [])
                     (map corpus_of_raw abc_corpora)))"
    by (elim exE conjE)
  also have "map c_display_name
                  (filter (\<lambda>c. q_status (corpus_query quiet_env ''plants'' None None None c) = ''success''
                                \<and> q_results (corpus_query quiet_env ''plants'' None None None c) \<noteq> None
                                \<and> q_results (corpus_query quiet_env ''plants'' None None None c) \<noteq> Some [])
                     (map corpus_of_raw abc_corpora)) = [''A'', ''C'']"
    by code_simp
  finally have a: "s_searched_corpora (search_all_corpora quiet_env ''plants'' None None None)
                   = Some [''A'', ''C'']" .
  have "list_all (\<lambda>c. corpus_query abc_env ''plants'' None None None c
                       = corpus_query quiet_env ''plants'' None None None c
           \<or> (q_status (corpus_query quiet_env ''plants'' None None None c) = ''success''
              \<and> q_results (corpus_query quiet_env ''plants'' None None None c) = Some []
              \<and> q_status (corpus_query abc_env ''plants'' None None None c) \<noteq> ''success''))
          (map corpus_of_raw abc_corpora)"
    by code_simp
  then have h4: "\<forall>c \<in> set (map corpus_of_raw abc_corpora).
           corpus_query abc_env ''plants'' None None None c
             = corpus_query quiet_env ''plants'' None None None c
           \<or> (q_status (corpus_query quiet_env ''plants'' None None None c) = ''success''
              \<and> q_results (corpus_query quiet_env ''plants'' None None None c) = Some []
              \<and> q_status (corpus_query abc_env ''plants'' None None None c) \<noteq> ''success'')"
    by (simp only: list_all_iff)
  note same = inst [THEN conjunct2, rule_format, OF h1 h3 h4 [rule_format]]
  have b: "s_searched_corpora (search_all_corpora abc_env ''plants'' None None None)
     = s_searched_corpora (search_all_corpora quiet_env ''plants'' None None None)"
    by (rule same [THEN conjunct1])
  have c: "s_corpus_results (search_all_corpora abc_env ''plants'' None None None)
     = s_corpus_results (search_all_corpora quiet_env ''plants'' None None None)"
    by (rule same [THEN conjunct2, THEN conjunct1])
  have d: "s_citations_summary (search_all_corpora abc_env ''plants'' None None None)
     = s_citations_summary (search_all_corpora quiet_env ''plants'' None None None)"
    by (rule same [THEN conjunct2, THEN conjunct2, THEN conjunct1])
  have f: "map (\<lambda>c. q_status (corpus_query quiet_env ''plants'' None None None c))
         (map corpus_of_raw abc_corpora) = [''success'', ''success'', ''success'']"
    by code_simp
  have g: "map (\<lambda>c. q_results (corpus_query quiet_env ''plants'' None None None c) = Some [])
         (map corpus_of_raw abc_corpora) = [False, True, False]"
    by code_simp
  have i: "map (\<lambda>c. q_status (corpus_query abc_env ''plants'' None None None c))
         (map corpus_of_raw abc_corpora) = [''success'', ''error'', ''success'']"
    by code_simp
  have j: "map_option (map fst) (s_corpus_results (search_all_corpora quiet_env ''plants'' None None None))
     = Some [''A'', ''C'']"
    by code_simp
  have l: "s_citations_summary (search_all_corpora quiet_env ''plants'' None None None)
     = Some [''A (1): 1 results'', ''C (3): 1 results'']"
    by code_simp
  from h1 h2 h3 f g i a j l b c d show ?thesis
    by (intro conjI)
qed

end
